theory Spec2Isabelle
  imports Main "HOL-Library.Sublist" "HOL-Library.List_Lexorder" "HOL-Library.Char_ord"
    "HOL-Library.Option_ord"
begin

section \<open>Python strings and pathlib paths\<close>

text \<open>
  A Python \<open>str\<close> is modelled as a \<open>string\<close>, one \<open>char\<close> per code point (code points
  below 256). Strings compare as Python compares them: lexicographically by code point.
\<close>

text \<open>\<open>pattern in s\<close>: the substring test of Python.\<close>

fun contains :: "string \<Rightarrow> string \<Rightarrow> bool" where
  "contains pat [] = (pat = [])"
| "contains pat (c # cs) = (prefix pat (c # cs) \<or> contains pat cs)"

text \<open>\<open>s.startswith(p)\<close> is \<open>prefix p s\<close>; \<open>s.endswith(p)\<close> is \<open>suffix p s\<close>.\<close>

text \<open>
  \<open>s.replace(old, new)\<close> for a non-empty \<open>old\<close>: every non-overlapping occurrence,
  from the left. (The source calls it with \<open>".source_"\<close> and with \<open>":"\<close> only.)
\<close>

fun py_replace :: "string \<Rightarrow> string \<Rightarrow> string \<Rightarrow> string" where
  "py_replace old new [] = []"
| "py_replace old new (c # cs) =
     (if prefix old (c # cs) then new @ py_replace old new (drop (length old - 1) cs)
      else c # py_replace old new cs)"

text \<open>\<open>sep.join(xs)\<close>.\<close>

fun py_join :: "string \<Rightarrow> string list \<Rightarrow> string" where
  "py_join sep [] = []"
| "py_join sep [x] = x"
| "py_join sep (x # y # ys) = x @ sep @ py_join sep (y # ys)"

text \<open>
  The line boundaries of \<open>str.splitlines\<close> among the code points below 256:
  LF, VT, FF, CR, FS, GS, RS and NEL (0x85); CR LF counts as one boundary.
\<close>

definition is_linebreak :: "char \<Rightarrow> bool" where
  "is_linebreak c = (of_char c \<in> {10, 11, 12, 13, 28, 29, 30, 133 :: nat})"

fun splitlines :: "string \<Rightarrow> string list" where
  "splitlines [] = []"
| "splitlines (c # cs) =
     (if is_linebreak c then
        (case cs of
           d # ds \<Rightarrow> if of_char c = (13::nat) \<and> of_char d = (10::nat)
                     then [] # splitlines ds else [] # splitlines cs
         | [] \<Rightarrow> [[]])
      else (case splitlines cs of [] \<Rightarrow> [[c]] | l # ls \<Rightarrow> (c # l) # ls))"

text \<open>The characters \<open>str.rstrip()\<close> removes: those with \<open>isspace()\<close>, below 256.\<close>

definition is_space :: "char \<Rightarrow> bool" where
  "is_space c = (of_char c \<in> {9, 10, 11, 12, 13, 28, 29, 30, 31, 32, 133, 160 :: nat})"

definition rstrip :: "string \<Rightarrow> string" where
  "rstrip s = rev (dropWhile is_space (rev s))"

text \<open>
  A \<open>pathlib.Path\<close> is modelled by its string form \<open>str(p)\<close>, which pathlib keeps
  normalised: no trailing slash, no doubled slash, \<open>"."\<close> for the empty relative path.
  Two paths are equal exactly when their string forms are.
\<close>

type_synonym path = string

text \<open>\<open>p.name\<close>: the final component.\<close>

definition name_of :: "path \<Rightarrow> string" where
  "name_of p = (if p = ''.'' then [] else rev (takeWhile (\<lambda>c. c \<noteq> CHR ''/'') (rev p)))"

text \<open>\<open>p.parent\<close>: the path without its final component.\<close>

definition parent_of :: "path \<Rightarrow> path" where
  "parent_of p =
     (let d = rev (dropWhile (\<lambda>c. c \<noteq> CHR ''/'') (rev p))
      in if d = [] then ''.'' else if d = ''/'' then ''/'' else butlast d)"

text \<open>\<open>parent / child\<close> for a relative \<open>child\<close>.\<close>

definition joinpath :: "path \<Rightarrow> string \<Rightarrow> path" where
  "joinpath parent child =
     (if child = [] \<or> child = ''.'' then parent
      else if parent = ''.'' then child
      else if parent = ''/'' then parent @ child
      else parent @ ''/'' @ child)"

section \<open>Pattern Filter\<close>

definition PATH_BLACKLIST :: "string list" where
  "PATH_BLACKLIST =
     [''.pde.'', ''/jre/'', ''/org.eclipse.equinox.p2.repository/'', ''ant'',
      ''artifacts.jar'', ''content.jar'', ''ease'', ''egit'', ''jdt.debug'', ''jgit'',
      ''pydev'']"

text \<open>
  The filter loop of \<open>_collect_target_platform_plugins\<close> (the same in both of its
  loops):
  \<^verbatim>\<open>
    skip = False
    for pattern in PATH_BLACKLIST:
        skip = pattern in str(src)
        if skip:
            break
  \<close>
  \<open>skip_loop pats s skip\<close> runs the loop over the remaining patterns and returns the
  final value of \<open>skip\<close>.
\<close>

fun skip_loop :: "string list \<Rightarrow> string \<Rightarrow> bool \<Rightarrow> bool" where
  "skip_loop [] s skip = skip"
| "skip_loop (pattern # pats) s skip =
     (let skip' = contains pattern s in if skip' then skip' else skip_loop pats s skip')"

definition is_excluded :: "path \<Rightarrow> bool" where
  "is_excluded p = skip_loop PATH_BLACKLIST p False"

section \<open>XML documents, the file system and the external collaborators\<close>

text \<open>
  An lxml element: its tag (with the namespace in Clark notation), its attributes in
  document order, its text (\<open>None\<close> when the element has none) and its children.
\<close>

datatype xml = Element (tag: string) (attrib: "(string \<times> string) list")
  (elem_text: "string option") (children: "xml list")

text \<open>\<open>x.get(key)\<close>.\<close>

definition get :: "xml \<Rightarrow> string \<Rightarrow> string option" where
  "get x key = map_of (attrib x) key"

text \<open>
  \<open>E.classpathentry(kind=..., path=..., sourcepath=..., including=...)\<close>: an element
  with the keyword arguments as its attributes, in the order they are written.
\<close>

definition classpathentry :: "(string \<times> string) list \<Rightarrow> xml" where
  "classpathentry kwargs = Element ''classpathentry'' kwargs None []"

text \<open>\<open>E.classpath(*entries)\<close>.\<close>

definition classpath :: "xml list \<Rightarrow> xml" where
  "classpath entries = Element ''classpath'' [] None entries"

text \<open>The elements an XPath \<open>//\<close> step visits: the element and its descendants, in document order.\<close>

fun descendants_or_self :: "xml \<Rightarrow> xml list" where
  "descendants_or_self (Element t a x cs) =
     Element t a x cs # concat (map descendants_or_self cs)"

text \<open>
  The file system is a snapshot: an association list from absolute paths to what is
  there, a directory or a regular file with its text. Every directory on the way to an
  entry is itself an entry; symbolic links and permissions are not modelled.
\<close>

datatype node = Dir | File string

text \<open>What \<open>subprocess.run(..., capture_output=True, text=True)\<close> returns, and what the
  tool wrote to the file named by \<open>-Dmdep.outputFile\<close> (empty if it wrote nothing:
  \<open>NamedTemporaryFile\<close> has created the file).\<close>

record tool_result =
  returncode :: int
  stdout :: string
  stderr :: string
  outfile :: string

text \<open>
  The external collaborators: lxml's parser (\<open>None\<close> when the text is not well-formed)
  and serialiser, the dependency-listing tool (given its command line and the directory
  it runs in), and the name \<open>tempfile\<close> picks. The temporary file lives outside the
  modelled file system, and the tool is taken to be installed: starting it does not fail.
\<close>

record env =
  parse :: "string \<Rightarrow> xml option"
  tostring :: "xml \<Rightarrow> string"
  mvn :: "string list \<Rightarrow> path \<Rightarrow> tool_result"
  tmpname :: string

text \<open>
  The process state: the working directory, the file system, the subprocesses run so far
  (command line and \<open>cwd\<close> argument) and what was printed.
\<close>

record world =
  cwd :: path
  fs :: "(path \<times> node) list"
  spawned :: "(string list \<times> path) list"
  console :: "string list"

datatype error =
    SysExit int
  | RuntimeError string
  | OSError path
  | XMLSyntaxError path

text \<open>A relative path is resolved against the working directory.\<close>

definition resolve :: "world \<Rightarrow> path \<Rightarrow> path" where
  "resolve w p = (if prefix ''/'' p then p else joinpath (cwd w) p)"

definition node_at :: "world \<Rightarrow> path \<Rightarrow> node option" where
  "node_at w p = map_of (fs w) (resolve w p)"

definition is_file :: "world \<Rightarrow> path \<Rightarrow> bool" where
  "is_file w p = (case node_at w p of Some (File t) \<Rightarrow> True | _ \<Rightarrow> False)"

definition is_dir :: "world \<Rightarrow> path \<Rightarrow> bool" where
  "is_dir w p = (node_at w p = Some Dir)"

definition echo :: "string \<Rightarrow> world \<Rightarrow> world" where
  "echo msg w = w\<lparr>console := console w @ [msg]\<rparr>"

fun store :: "path \<Rightarrow> node \<Rightarrow> (path \<times> node) list \<Rightarrow> (path \<times> node) list" where
  "store p n [] = [(p, n)]"
| "store p n ((q, m) # rest) = (if q = p then (p, n) # rest else (q, m) # store p n rest)"

text \<open>\<open>pathlib.Path(p).write_bytes(data)\<close>: the whole file is replaced.\<close>

definition write_bytes :: "path \<Rightarrow> string \<Rightarrow> world \<Rightarrow> error option \<times> world" where
  "write_bytes p data w =
     (if is_dir w p then (Some (OSError p), w)
      else (None, w\<lparr>fs := store (resolve w p) (File data) (fs w)\<rparr>))"

subsection \<open>Globbing\<close>

text \<open>The path of \<open>key\<close> relative to the directory \<open>root\<close>, when it lies below it.\<close>

definition rel_under :: "path \<Rightarrow> path \<Rightarrow> string option" where
  "rel_under root key =
     (if root = ''/'' then (if prefix ''/'' key \<and> key \<noteq> ''/'' then Some (tl key) else None)
      else if prefix (root @ ''/'') key \<and> length root + 1 < length key
           then Some (drop (length root + 1) key) else None)"

definition tree_under :: "world \<Rightarrow> path \<Rightarrow> string list" where
  "tree_under w target = List.map_filter (rel_under (resolve w target)) (map fst (fs w))"

text \<open>A name matches \<open>*.jar\<close>; a name matches \<open>*.source_*.jar\<close>.\<close>

definition match_jar :: "string \<Rightarrow> bool" where
  "match_jar n = suffix ''.jar'' n"

definition match_source_jar :: "string \<Rightarrow> bool" where
  "match_source_jar n = (suffix ''.jar'' n \<and> contains ''.source_'' (take (length n - 4) n))"

text \<open>\<open>target_path.glob("**/*.source_*.jar")\<close>, in the order of the snapshot.\<close>

definition glob_sources :: "world \<Rightarrow> path \<Rightarrow> path list" where
  "glob_sources w target =
     map (joinpath target) (filter (\<lambda>rel. match_source_jar (name_of rel)) (tree_under w target))"

text \<open>\<open>target_path.glob(sub + "/**/*.jar")\<close>.\<close>

definition glob_jars :: "world \<Rightarrow> path \<Rightarrow> string \<Rightarrow> path list" where
  "glob_jars w target sub =
     map (joinpath target)
       (filter (\<lambda>rel. prefix (sub @ ''/'') rel \<and> match_jar (name_of rel)) (tree_under w target))"

section \<open>Reading the descriptors\<close>

text \<open>
  \<open>_read_xml_file(path)\<close>: prints and exits with status 1 when nothing is at the path;
  \<open>lxml.etree.parse\<close> raises on a directory and on text that is not well-formed.
\<close>

definition read_xml_file :: "env \<Rightarrow> path \<Rightarrow> world \<Rightarrow> (error + xml) \<times> world" where
  "read_xml_file ev p w =
     (case node_at w p of
        None \<Rightarrow> (Inl (SysExit 1), echo (''`File '' @ p @ ''` not found.'') w)
      | Some Dir \<Rightarrow> (Inl (OSError p), w)
      | Some (File t) \<Rightarrow>
          (case parse ev t of None \<Rightarrow> (Inl (XMLSyntaxError p), w) | Some root \<Rightarrow> (Inr root, w)))"

text \<open>
  \<open>pom.xpath("//m:" + field, namespaces=ns)\<close> and the choice the source makes of it:
  the text of the first such element in document order (\<open>None\<close> prints as \<open>"None"\<close> in an
  f-string), or \<open>"unknown"\<close> when there is no such element.
\<close>

definition pom_field :: "xml \<Rightarrow> string \<Rightarrow> string" where
  "pom_field pom field =
     (case filter (\<lambda>x. tag x = ''{http://maven.apache.org/POM/4.0.0}'' @ field)
             (descendants_or_self pom) of
        [] \<Rightarrow> ''unknown''
      | x # xs \<Rightarrow> (case elem_text x of None \<Rightarrow> ''None'' | Some t \<Rightarrow> t))"

definition compute_jar_name :: "env \<Rightarrow> world \<Rightarrow> (error + string) \<times> world" where
  "compute_jar_name ev w =
     (case read_xml_file ev ''pom.xml'' w of
        (Inl e, w') \<Rightarrow> (Inl e, w')
      | (Inr pom, w') \<Rightarrow>
          (let group_id = pom_field pom ''groupId'';
               artifact_id = pom_field pom ''artifactId'';
               version = pom_field pom ''version''
           in (Inr (group_id @ ''.'' @ artifact_id @ ''_'' @ version @ ''.jar''), w')))"

text \<open>
  Path ordering (\<open>sorted\<close> on paths): pathlib compares the lists of components.
\<close>

fun split_sep :: "string \<Rightarrow> string list" where
  "split_sep [] = [[]]"
| "split_sep (c # cs) =
     (if c = CHR ''/'' then [] # split_sep cs
      else (case split_sep cs of [] \<Rightarrow> [[c]] | l # ls \<Rightarrow> (c # l) # ls))"

text \<open>
  The XPath of \<open>_third_party_lib_paths\<close>, evaluated at the root element:
  \<^verbatim>\<open>classpathentry[@kind="lib" and not(starts-with(@path, "/opt/capella_6.0.0"))]/@path\<close>
  A missing \<open>path\<close> attribute reads as the empty string in \<open>starts-with\<close> and yields
  no attribute node. The paths of the descriptor are taken to be written in the normal
  form of pathlib, so that \<open>pathlib.Path(p)\<close> keeps them as they are.
\<close>

definition xpath_lib_paths :: "xml \<Rightarrow> string list" where
  "xpath_lib_paths root =
     concat (map (\<lambda>c.
        if tag c = ''classpathentry'' \<and> get c ''kind'' = Some ''lib''
           \<and> \<not> prefix ''/opt/capella_6.0.0'' (case get c ''path'' of None \<Rightarrow> [] | Some p \<Rightarrow> p)
        then (case get c ''path'' of None \<Rightarrow> [] | Some p \<Rightarrow> [p]) else [])
       (children root))"

definition third_party_lib_paths :: "env \<Rightarrow> world \<Rightarrow> (error + path list) \<times> world" where
  "third_party_lib_paths ev w =
     (case read_xml_file ev ''.classpath'' w of
        (Inl e, w') \<Rightarrow> (Inl e, w')
      | (Inr classpath_root, w') \<Rightarrow> (Inr (sort_key split_sep (xpath_lib_paths classpath_root)), w'))"

section \<open>Artifact Scanner and Source/Binary Reconciler\<close>

text \<open>
  \<open>libs = [lst for lst in libs if not lst.name == compute_jar_name()]\<close>:
  \<open>compute_jar_name\<close> runs once for every element, and its failure ends the run.
\<close>

fun drop_own_jar :: "env \<Rightarrow> path list \<Rightarrow> world \<Rightarrow> (error + path list) \<times> world" where
  "drop_own_jar ev [] w = (Inr [], w)"
| "drop_own_jar ev (lst # libs) w =
     (case compute_jar_name ev w of
        (Inl e, w') \<Rightarrow> (Inl e, w')
      | (Inr jar_name, w') \<Rightarrow>
          (case drop_own_jar ev libs w' of
             (Inl e, w'') \<Rightarrow> (Inl e, w'')
           | (Inr rest, w'') \<Rightarrow>
               (Inr (if \<not> name_of lst = jar_name then lst # rest else rest), w'')))"

text \<open>
  The scan (lines 111 to 121). A Python set has no order of its own; the model lists a
  set in the order of the snapshot, without duplicates.
\<close>

definition scan :: "env \<Rightarrow> path \<Rightarrow> world \<Rightarrow> (error + path list \<times> path list) \<times> world" where
  "scan ev target_path w =
     (let sources = remdups (glob_sources w target_path);
          dropins_jars = glob_jars w target_path ''dropins'';
          features_jars = glob_jars w target_path ''features'';
          jre_jars = glob_jars w target_path ''jre'';
          plugins_jars = glob_jars w target_path ''plugins'';
          libs = filter (\<lambda>p. p \<notin> set sources)
                   (remdups (dropins_jars @ features_jars @ jre_jars @ plugins_jars))
      in case drop_own_jar ev libs w of
           (Inl e, w') \<Rightarrow> (Inl e, w')
         | (Inr libs', w') \<Rightarrow> (Inr (sources, libs'), w'))"

text \<open>The binary sibling of a source archive (lines 131 to 135).\<close>

definition sibling :: "path \<Rightarrow> path" where
  "sibling src =
     (let parent = parent_of src; base = name_of src
      in joinpath parent (py_replace ''.source_'' ''_'' base))"

text \<open>
  One round of the first loop (lines 123 to 145) on the working list \<open>libs\<close> and the
  entries collected so far. \<open>libs.remove(lib)\<close> removes the first occurrence and raises
  \<open>ValueError\<close>, which the source ignores, when there is none.
\<close>

definition src_body :: "world \<Rightarrow> path \<Rightarrow> path list \<times> xml list \<Rightarrow> path list \<times> xml list" where
  "src_body w src st =
     (case st of (libs, target_classpaths) \<Rightarrow>
        if is_excluded src then (libs, target_classpaths)
        else (let lib = sibling src; libs' = remove1 lib libs
              in if is_file w lib \<and> is_file w src
                 then (libs', target_classpaths @
                        [classpathentry [(''kind'', ''lib''), (''path'', lib), (''sourcepath'', src)]])
                 else (libs', target_classpaths)))"

fun srcs_loop :: "world \<Rightarrow> path list \<Rightarrow> path list \<times> xml list \<Rightarrow> path list \<times> xml list" where
  "srcs_loop w [] st = st"
| "srcs_loop w (src # srcs) st = srcs_loop w srcs (src_body w src st)"

text \<open>One round of the second loop (lines 146 to 157).\<close>

definition lib_body :: "world \<Rightarrow> path \<Rightarrow> xml list \<Rightarrow> xml list" where
  "lib_body w lib target_classpaths =
     (if is_excluded lib then target_classpaths
      else if is_file w lib
           then target_classpaths @ [classpathentry [(''kind'', ''lib''), (''path'', lib)]]
           else target_classpaths)"

fun libs_loop :: "world \<Rightarrow> path list \<Rightarrow> xml list \<Rightarrow> xml list" where
  "libs_loop w [] target_classpaths = target_classpaths"
| "libs_loop w (lib # libs) target_classpaths = libs_loop w libs (lib_body w lib target_classpaths)"

text \<open>Lines 122 to 159: both loops and the stable sort by the \<open>path\<close> attribute.\<close>

definition reconcile :: "world \<Rightarrow> path list \<Rightarrow> path list \<Rightarrow> xml list" where
  "reconcile w srcs libs =
     (case srcs_loop w srcs (libs, []) of
        (libs', target_classpaths) \<Rightarrow>
          sort_key (\<lambda>x. get x ''path'') (libs_loop w libs' target_classpaths))"

definition collect_target_platform_plugins ::
  "env \<Rightarrow> path \<Rightarrow> world \<Rightarrow> (error + xml list) \<times> world" where
  "collect_target_platform_plugins ev target_path w =
     (case scan ev target_path w of
        (Inl e, w') \<Rightarrow> (Inl e, w')
      | (Inr (sources, libs), w') \<Rightarrow> (Inr (reconcile w' sources libs), w'))"

section \<open>Classpath Assembler: \<open>build_classpath\<close>\<close>

text \<open>\<open>path.parents\<close>: the ancestors of a path, nearest first.\<close>

function parents :: "path \<Rightarrow> path list" where
  "parents p = (if parent_of p = p then [] else parent_of p # parents (parent_of p))"
  by pat_completeness auto

lemma parent_of_shorter:
  "parent_of p = ''.'' \<or> parent_of p = ''/'' \<or> length (parent_of p) < length p"
proof -
  let ?d = "rev (dropWhile (\<lambda>c. c \<noteq> CHR ''/'') (rev p))"
  have le: "length ?d \<le> length p"
    using length_dropWhile_le [of "\<lambda>c. c \<noteq> CHR ''/''" "rev p"] by simp
  show ?thesis
  proof (cases "?d = [] \<or> ?d = ''/''")
    case True
    then show ?thesis by (auto simp: parent_of_def Let_def)
  next
    case False
    then have a: "?d \<noteq> []" and b: "?d \<noteq> ''/''" by blast+
    have "parent_of p = (if ?d = [] then ''.'' else if ?d = ''/'' then ''/'' else butlast ?d)"
      by (simp only: parent_of_def Let_def)
    with a b have "parent_of p = butlast ?d" by (simp only: if_False)
    moreover from a have "length (butlast ?d) < length ?d" by (simp only: length_butlast) simp
    ultimately show ?thesis using le by (simp only:) simp
  qed
qed

lemma parent_of_dot: "parent_of ''.'' = ''.''"
  by (simp add: parent_of_def)

lemma parent_of_root: "parent_of ''/'' = ''/''"
  by (simp add: parent_of_def)

termination parents
proof (relation "measure (\<lambda>p. if parent_of p = p then 0 else Suc (length p))")
  show "wf (measure (\<lambda>p. if parent_of p = p then 0 else Suc (length p)))" by simp
next
  fix p :: path
  assume ne: "parent_of p \<noteq> p"
  show "(parent_of p, p) \<in> measure (\<lambda>p. if parent_of p = p then 0 else Suc (length p))"
    using parent_of_shorter [of p] ne parent_of_dot parent_of_root by auto
qed

text \<open>
  \<open>find_eclipse_jdtls_project_directory\<close>: the nearest ancestor of \<open>filename\<close> that holds
  both a \<open>.project\<close> and a \<open>pom.xml\<close> file.
\<close>

definition find_eclipse_jdtls_project_directory :: "path \<Rightarrow> world \<Rightarrow> path option" where
  "find_eclipse_jdtls_project_directory filename w =
     find (\<lambda>parent. is_file w (joinpath parent ''.project'') \<and> is_file w (joinpath parent ''pom.xml''))
       (parents filename)"

text \<open>Lines 188 to 200.\<close>

definition fixed_classpaths :: "xml list" where
  "fixed_classpaths =
     [classpathentry [(''kind'', ''src''), (''path'', ''src''), (''including'', ''**/*.java'')],
      classpathentry [(''kind'', ''output''), (''path'', ''target/classes'')],
      classpathentry [(''kind'', ''con''),
        (''path'', ''org.eclipse.jdt.launching.JRE_CONTAINER/'' @
                   ''org.eclipse.jdt.internal.debug.ui.launcher.StandardVMType/'' @
                   ''JavaSE-17'')]]"

definition mvn_cmd :: "env \<Rightarrow> string list" where
  "mvn_cmd ev = [''mvn'', ''-q'', ''dependency:build-classpath'', ''-Dmdep.outputFile='' @ tmpname ev]"

text \<open>
  \<open>os.chdir(d)\<close> raises when \<open>d\<close> is no directory; \<open>subprocess.run(..., cwd=d)\<close> raises
  when \<open>d\<close>, resolved against the working directory of that moment, is none.
\<close>

definition chdir :: "path \<Rightarrow> world \<Rightarrow> error option \<times> world" where
  "chdir d w = (if is_dir w d then (None, w\<lparr>cwd := resolve w d\<rparr>) else (Some (OSError d), w))"

definition subprocess_run ::
  "env \<Rightarrow> string list \<Rightarrow> path \<Rightarrow> world \<Rightarrow> (error + tool_result) \<times> world" where
  "subprocess_run ev cmd d w =
     (if is_dir w d then (Inr (mvn ev cmd (resolve w d)), w\<lparr>spawned := spawned w @ [(cmd, d)]\<rparr>)
      else (Inl (OSError d), w))"

text \<open>
  The body of \<open>build_classpath\<close>. The result is the exception or exit that ended the run
  (\<open>None\<close> when it ran to its end) and the process state it left.
\<close>

definition build_classpath :: "env \<Rightarrow> path \<Rightarrow> path \<Rightarrow> world \<Rightarrow> error option \<times> world" where
  "build_classpath ev filename target_platform_path w =
     (let target_path = target_platform_path in
      if \<not> is_dir w target_path
      then (Some (SysExit 1),
            echo (''Target platform installation dir `'' @ target_path @ ''` not found.'') w)
      else
        (case find_eclipse_jdtls_project_directory filename w of
           None \<Rightarrow>
             (Some (RuntimeError
                (''Could not find a valid Eclipse JDTLS project directory.'' @
                 '' containing a `.project` and a `pom.xml` file.'')), w)
         | Some project_dir \<Rightarrow>
             (case chdir project_dir w of
                (Some e, w1) \<Rightarrow> (Some e, w1)
              | (None, w1) \<Rightarrow>
                  (let w2 = echo (''Building classpath for project in `'' @ project_dir @ ''`'') w1
                   in case subprocess_run ev (mvn_cmd ev) project_dir w2 of
                        (Inl e, w3) \<Rightarrow> (Some e, w3)
                      | (Inr result, w3) \<Rightarrow>
                          if returncode result \<noteq> 0 then (Some (RuntimeError (stdout result)), w3)
                          else
                            (let classpath_3rdparty =
                                   sort (splitlines (py_replace '':'' [CHR 0x0A] (outfile result)));
                                 classpaths = fixed_classpaths @
                                   map (\<lambda>path. classpathentry [(''kind'', ''lib''), (''path'', path)])
                                     classpath_3rdparty
                             in case collect_target_platform_plugins ev target_path w3 of
                                  (Inl e, w4) \<Rightarrow> (Some e, w4)
                                | (Inr target_classpaths, w4) \<Rightarrow>
                                    (case write_bytes ''.classpath''
                                            (tostring ev (classpath (classpaths @ target_classpaths))) w4 of
                                       (Some e, w5) \<Rightarrow> (Some e, w5)
                                     | (None, w5) \<Rightarrow> (None, echo ''Created `.classpath` file.'' w5)))))))"

section \<open>Manifest Classpath Patcher\<close>

definition MANIFEST_PATH :: path where
  "MANIFEST_PATH = ''META-INF/MANIFEST.MF''"

text \<open>
  \<open>_get_bundle_classpath(third_party_lib_paths)\<close>. The names come from a fresh call of
  \<open>_third_party_lib_paths()\<close>; of the argument only its emptiness is used.
\<close>

definition get_bundle_classpath :: "env \<Rightarrow> path list \<Rightarrow> world \<Rightarrow> (error + string) \<times> world" where
  "get_bundle_classpath ev third_party_lib_paths_arg w =
     (case third_party_lib_paths ev w of
        (Inl e, w') \<Rightarrow> (Inl e, w')
      | (Inr ps, w') \<Rightarrow>
          (let lib_paths = sort (map name_of ps);
               value = (if third_party_lib_paths_arg \<noteq> []
                        then ''.,'' @ [CHR 0x0A] @
                             py_join ('','' @ [CHR 0x0A]) (map (\<lambda>p. '' lib/'' @ p) lib_paths)
                        else ''.'')
           in (Inr (''Bundle-ClassPath: '' @ value), w')))"

text \<open>
  The loop of \<open>_update_bundle_classpath\<close> (lines 289 to 300) over the remaining lines;
  the state is \<open>(manifest, found_bundle_classpath, inside_bundle_classpath)\<close>.
\<close>

fun patch_loop :: "string \<Rightarrow> string list \<Rightarrow> string \<times> bool \<times> bool \<Rightarrow> string \<times> bool \<times> bool" where
  "patch_loop bundle_classpath [] st = st"
| "patch_loop bundle_classpath (line # lines) (manifest, found, inside) =
     (if prefix ''Bundle-ClassPath:'' line
      then patch_loop bundle_classpath lines (manifest @ bundle_classpath @ [CHR 0x0A], True, True)
      else if inside \<and> prefix '' '' line
      then patch_loop bundle_classpath lines (manifest, found, inside)
      else patch_loop bundle_classpath lines
             (manifest @ rstrip line @ [CHR 0x0A], found, if inside then False else inside))"

text \<open>Lines 285 to 304: the text the patcher writes, from the text it read.\<close>

definition patch_manifest :: "string \<Rightarrow> string \<Rightarrow> string" where
  "patch_manifest bundle_classpath manifest =
     (case patch_loop bundle_classpath (splitlines manifest) ([], False, False) of
        (manifest', found, inside) \<Rightarrow>
          if bundle_classpath \<noteq> [] \<and> \<not> found
          then (if \<not> suffix [CHR 0x0A] manifest' then manifest' @ [CHR 0x0A] else manifest')
               @ bundle_classpath @ [CHR 0x0A]
          else manifest')"

text \<open>
  \<open>MANIFEST_PATH.read_text(encoding="utf-8")\<close>. The \<open>write_text\<close> that ends
  \<open>_update_bundle_classpath\<close> replaces the whole file as \<open>write_bytes\<close> does.
\<close>

definition read_text :: "path \<Rightarrow> world \<Rightarrow> error + string" where
  "read_text p w = (case node_at w p of Some (File t) \<Rightarrow> Inr t | _ \<Rightarrow> Inl (OSError p))"

definition update_bundle_classpath :: "env \<Rightarrow> path list \<Rightarrow> world \<Rightarrow> error option \<times> world" where
  "update_bundle_classpath ev third_party_lib_paths_arg w =
     (case read_text MANIFEST_PATH w of
        Inl e \<Rightarrow> (Some e, w)
      | Inr manifest \<Rightarrow>
          (case get_bundle_classpath ev third_party_lib_paths_arg w of
             (Inl e, w') \<Rightarrow> (Some e, w')
           | (Inr bundle_classpath, w') \<Rightarrow>
               write_bytes MANIFEST_PATH (patch_manifest bundle_classpath manifest) w'))"

section \<open>Shapes of the reconciled entries\<close>

text \<open>
  Names for the two entries the loops of \<open>_collect_target_platform_plugins\<close> append,
  and for the test under which the first loop appends one.
\<close>

definition paired_entry :: "path \<Rightarrow> xml" where
  "paired_entry src =
     classpathentry [(''kind'', ''lib''), (''path'', sibling src), (''sourcepath'', src)]"

definition single_entry :: "path \<Rightarrow> xml" where
  "single_entry lib = classpathentry [(''kind'', ''lib''), (''path'', lib)]"

definition ok_src :: "world \<Rightarrow> path \<Rightarrow> bool" where
  "ok_src w s = (\<not> is_excluded s \<and> is_file w (sibling s) \<and> is_file w s)"

section \<open>Stages of \<open>build_classpath\<close>\<close>

text \<open>
  Names for the states \<open>build_classpath\<close> passes through and for the document it
  writes. Two process states are the same but for the console when they agree on the
  working directory, the files and the subprocesses run.
\<close>

definition same_but_console :: "world \<Rightarrow> world \<Rightarrow> bool" where
  "same_but_console w w' = (cwd w' = cwd w \<and> fs w' = fs w \<and> spawned w' = spawned w)"

text \<open>The world in which the tool runs, and what it returns there.\<close>

definition in_project :: "path \<Rightarrow> world \<Rightarrow> world" where
  "in_project project_dir w =
     echo (''Building classpath for project in `'' @ project_dir @ ''`'') (w\<lparr>cwd := resolve w project_dir\<rparr>)"

definition tool_run :: "env \<Rightarrow> path \<Rightarrow> world \<Rightarrow> tool_result" where
  "tool_run ev project_dir w = mvn ev (mvn_cmd ev) (resolve (in_project project_dir w) project_dir)"

definition after_tool :: "env \<Rightarrow> path \<Rightarrow> world \<Rightarrow> world" where
  "after_tool ev project_dir w =
     (in_project project_dir w)\<lparr>spawned := spawned w @ [(mvn_cmd ev, project_dir)]\<rparr>"

definition assembled :: "env \<Rightarrow> path \<Rightarrow> world \<Rightarrow> xml list \<Rightarrow> xml" where
  "assembled ev project_dir w target_classpaths =
     classpath
       (fixed_classpaths @
        map (\<lambda>path. classpathentry [(''kind'', ''lib''), (''path'', path)])
          (sort (splitlines (py_replace '':'' [CHR 0x0A] (outfile (tool_run ev project_dir w))))) @
        target_classpaths)"

section \<open>Example installations\<close>

text \<open>
  Concrete collaborators and file systems on which the functions are evaluated: a project
  in \<open>/w/proj\<close> with its \<open>.project\<close> and \<open>pom.xml\<close>, a target platform in
  \<open>/tp\<close>, and a tree of artifacts that varies.
\<close>

definition demo_pom :: xml where
  "demo_pom =
     Element ''{http://maven.apache.org/POM/4.0.0}project'' [] None
       [Element ''{http://maven.apache.org/POM/4.0.0}groupId'' [] (Some ''org.demo'') [],
        Element ''{http://maven.apache.org/POM/4.0.0}artifactId'' [] (Some ''plugin'') [],
        Element ''{http://maven.apache.org/POM/4.0.0}version'' [] (Some ''1.0'') []]"

definition demo_descriptor :: xml where
  "demo_descriptor =
     classpath
       [classpathentry [(''kind'', ''output''), (''path'', ''target/classes'')],
        classpathentry [(''kind'', ''lib''), (''path'', ''/m2/repo/a/z.jar'')],
        classpathentry [(''kind'', ''lib''), (''path'', ''/m2/repo/b/c.jar'')],
        classpathentry [(''kind'', ''lib''), (''path'', ''/opt/capella_6.0.0/plugins/p.jar'')]]"

definition demo_tool :: "string list \<Rightarrow> path \<Rightarrow> tool_result" where
  "demo_tool cmd d =
     \<lparr>returncode = 0, stdout = [], stderr = [], outfile = ''/m2/repo/b.jar:/m2/repo/a.jar''\<rparr>"

definition demo_env :: env where
  "demo_env =
     \<lparr>parse = (\<lambda>t. if t = ''<project/>'' then Some demo_pom
                    else if t = ''<classpath/>'' then Some demo_descriptor else None),
      tostring = (\<lambda>x. concat (map (\<lambda>c. case get c ''path'' of None \<Rightarrow> [] | Some p \<Rightarrow> p @ '';'')
                                  (children x))),
      mvn = demo_tool,
      tmpname = ''/tmp/tmp0''\<rparr>"

definition project_fs :: "(path \<times> node) list" where
  "project_fs =
     [(''/'', Dir), (''/home'', Dir), (''/w'', Dir), (''/w/proj'', Dir),
      (''/w/proj/.project'', File []), (''/w/proj/pom.xml'', File ''<project/>''),
      (''/w/proj/src'', Dir), (''/w/proj/src/A.java'', File []), (''/tp'', Dir)]"

definition demo_world :: "path \<Rightarrow> (path \<times> node) list \<Rightarrow> world" where
  "demo_world d tree = \<lparr>cwd = d, fs = project_fs @ tree, spawned = [], console = []\<rparr>"

definition own_jar_tree :: "(path \<times> node) list" where
  "own_jar_tree =
     [(''/tp/plugins'', Dir), (''/tp/plugins/org.demo.plugin_1.0.jar'', File []),
      (''/tp/plugins/x_1.jar'', File []), (''/tp/plugins/x.source_1.jar'', File []),
      (''/tp/dropins'', Dir), (''/tp/dropins/y.jar'', File [])]"

definition denylisted_root_tree :: "(path \<times> node) list" where
  "denylisted_root_tree =
     [(''/opt'', Dir), (''/opt/jre'', Dir), (''/opt/jre/tp'', Dir), (''/opt/jre/tp/plugins'', Dir),
      (''/opt/jre/tp/plugins/x_1.jar'', File []), (''/opt/jre/tp/plugins/x.source_1.jar'', File [])]"

definition unscanned_pair_tree :: "(path \<times> node) list" where
  "unscanned_pair_tree =
     [(''/tp/extras'', Dir), (''/tp/extras/z_1.jar'', File []),
      (''/tp/extras/z.source_1.jar'', File [])]"

definition shared_sibling_tree :: "(path \<times> node) list" where
  "shared_sibling_tree =
     [(''/tp/plugins'', Dir), (''/tp/plugins/a__1.jar'', File []),
      (''/tp/plugins/a.source_.source_1.jar'', File []),
      (''/tp/plugins/a_.source_1.jar'', File [])]"

definition manifest_tree :: "(path \<times> node) list" where
  "manifest_tree =
     [(''/w/proj/.classpath'', File ''<classpath/>''), (''/w/proj/META-INF'', Dir),
      (''/w/proj/META-INF/MANIFEST.MF'',
       File (''Manifest-Version: 1.0'' @ [CHR 0x0A] @ ''Bundle-ClassPath: a,'' @ [CHR 0x0A] @
             '' b'' @ [CHR 0x0A] @ ''Bundle-Name: Demo  '' @ [CHR 0x0A] @
             ''Bundle-ClassPath: c'' @ [CHR 0x0A]))]"

definition failing_tool :: "string list \<Rightarrow> path \<Rightarrow> tool_result" where
  "failing_tool cmd d =
     \<lparr>returncode = 1, stdout = ''[ERROR] BUILD FAILURE'', stderr = ''Picked up _JAVA_OPTIONS'',
      outfile = []\<rparr>"

definition failing_env :: env where
  "failing_env = demo_env\<lparr>mvn := failing_tool\<rparr>"

section \<open>Properties of the Pattern Filter\<close>

lemma contains_iff: "contains pat s \<longleftrightarrow> (\<exists>u v. s = u @ pat @ v)"
proof (induction s)
  case Nil
  then show ?case by auto
next
  case (Cons c cs)
  have "(\<exists>u v. c # cs = u @ pat @ v) \<longleftrightarrow> prefix pat (c # cs) \<or> (\<exists>u v. cs = u @ pat @ v)"
    using sublist_Cons_right [of pat c cs] by (simp only: sublist_def)
  with Cons show ?case by simp
qed

lemma contains_append: "contains pat s \<Longrightarrow> contains pat (a @ s @ b)"
  unfolding contains_iff by (metis append.assoc)

lemma skip_loop_iff: "skip_loop pats s False \<longleftrightarrow> (\<exists>pat \<in> set pats. contains pat s)"
  by (induction pats) (auto simp: Let_def)

lemma is_excluded_iff: "is_excluded p \<longleftrightarrow> (\<exists>pat \<in> set PATH_BLACKLIST. contains pat p)"
  by (simp add: is_excluded_def skip_loop_iff)

text \<open>
  Claim C5. A path is excluded exactly when one of the denylist strings occurs in it as
  a substring (case-sensitively: the comparison is of characters). Hence an excluded
  path stays excluded whatever is appended to it, and a path in which no denylist string
  occurs is not excluded.
\<close>

theorem is_excluded_denylist:
  "(is_excluded p \<longleftrightarrow> (\<exists>pat \<in> set PATH_BLACKLIST. \<exists>u v. p = u @ pat @ v))
   \<and> (is_excluded p \<longrightarrow> is_excluded (p @ t))
   \<and> ((\<forall>pat \<in> set PATH_BLACKLIST. \<not> (\<exists>u v. p = u @ pat @ v)) \<longrightarrow> \<not> is_excluded p)"
proof -
  have a: "is_excluded p \<longleftrightarrow> (\<exists>pat \<in> set PATH_BLACKLIST. \<exists>u v. p = u @ pat @ v)"
    by (simp only: is_excluded_iff contains_iff)
  have b: "is_excluded p \<longrightarrow> is_excluded (p @ t)"
    using contains_append [of _ p "[]" t] by (auto simp: is_excluded_iff)
  from a b show ?thesis by blast
qed

theorem is_excluded_denylist_witness:
  "is_excluded ''/tp/plugins/org.apache.ant_1.10.jar''
   \<and> is_excluded (''/tp/plugins/org.apache.ant_1.10.jar'' @ ''.bak'')
   \<and> \<not> is_excluded ''/tp/plugins/org.apache.ANT_1.10.jar''"
proof -
  have a: "is_excluded ''/tp/plugins/org.apache.ant_1.10.jar''"
    by (simp add: is_excluded_def PATH_BLACKLIST_def)
  have c: "\<not> is_excluded ''/tp/plugins/org.apache.ANT_1.10.jar''"
    by (simp add: is_excluded_def PATH_BLACKLIST_def)
  from a c is_excluded_denylist [of "''/tp/plugins/org.apache.ant_1.10.jar''" "''.bak''"]
  show ?thesis by blast
qed

section \<open>Properties of the Artifact Scanner\<close>

lemma read_xml_file_Inr: "read_xml_file ev p w = (Inr x, w') \<Longrightarrow> w' = w"
  by (auto simp: read_xml_file_def split: option.splits node.splits)

lemma compute_jar_name_Inr: "compute_jar_name ev w = (Inr n, w') \<Longrightarrow> w' = w"
  by (auto simp: compute_jar_name_def Let_def split: prod.splits sum.splits dest: read_xml_file_Inr)

lemma compute_jar_name_fst: "fst (compute_jar_name ev w) = Inr n \<Longrightarrow> compute_jar_name ev w = (Inr n, w)"
  using compute_jar_name_Inr [of ev w n "snd (compute_jar_name ev w)"]
  by (cases "compute_jar_name ev w") simp

lemma drop_own_jar_Inr:
  "drop_own_jar ev libs w = (Inr r, w') \<Longrightarrow>
     w' = w \<and> r = filter (\<lambda>p. fst (compute_jar_name ev w) \<noteq> Inr (name_of p)) libs"
proof (induction libs arbitrary: r w')
  case Nil
  then show ?case by simp
next
  case (Cons lst libs)
  from Cons.prems obtain n w1 where c: "compute_jar_name ev w = (Inr n, w1)"
    by (auto split: prod.splits sum.splits)
  then have w1: "w1 = w" by (rule compute_jar_name_Inr)
  from Cons.prems c w1 obtain rest w2 where d: "drop_own_jar ev libs w = (Inr rest, w2)"
    and r: "r = (if \<not> name_of lst = n then lst # rest else rest)" and w2: "w' = w2"
    by (auto split: prod.splits sum.splits)
  from Cons.IH [OF d] c w1 r w2 show ?case by auto
qed

lemma drop_own_jar_total:
  "fst (compute_jar_name ev w) = Inr n \<Longrightarrow>
     drop_own_jar ev libs w = (Inr (filter (\<lambda>p. name_of p \<noteq> n) libs), w)"
  by (induction libs) (auto dest: compute_jar_name_fst)

lemma drop_own_jar_empty_or_named:
  "drop_own_jar ev libs w = (Inr r, w') \<Longrightarrow> libs = [] \<or> (\<exists>n. fst (compute_jar_name ev w) = Inr n)"
  by (cases libs) (auto split: prod.splits sum.splits)

lemma scan_Inr:
  assumes "scan ev t w = (Inr (sources, binaries), w')"
  shows "w' = w \<and> sources = remdups (glob_sources w t)
     \<and> binaries = filter (\<lambda>p. fst (compute_jar_name ev w) \<noteq> Inr (name_of p))
          (filter (\<lambda>p. p \<notin> set (glob_sources w t))
             (remdups (glob_jars w t ''dropins'' @ glob_jars w t ''features''
                @ glob_jars w t ''jre'' @ glob_jars w t ''plugins'')))"
  using assms unfolding scan_def Let_def
  by (auto split: prod.splits sum.splits dest!: drop_own_jar_Inr)

lemma scan_total:
  assumes "fst (compute_jar_name ev w) = Inr n"
  shows "\<exists>sources binaries. scan ev t w = (Inr (sources, binaries), w)"
  unfolding scan_def Let_def by (simp add: drop_own_jar_total [OF assms])



section \<open>Properties of the Source/Binary Reconciler\<close>

lemma denylist_not_in_dot: "pat \<in> set PATH_BLACKLIST \<Longrightarrow> \<not> contains pat ''.''"
  by (auto simp: PATH_BLACKLIST_def)

lemma contains_joinpath:
  assumes "pat \<in> set PATH_BLACKLIST" and "contains pat target"
  shows "contains pat (joinpath target rel)"
proof -
  from assms have nd: "target \<noteq> ''.''" using denylist_not_in_dot by blast
  have a: "contains pat (target @ rel)" using contains_append [OF assms(2), of "[]" rel] by simp
  have b: "contains pat (target @ ''/'' @ rel)"
    using contains_append [OF assms(2), of "[]" "''/'' @ rel"] by simp
  have "joinpath target rel = target \<or> joinpath target rel = target @ rel
      \<or> joinpath target rel = target @ ''/'' @ rel"
    using nd unfolding joinpath_def by (simp only: if_False split: if_splits) auto
  with a b assms(2) show ?thesis by metis
qed

lemma glob_sources_joinpath: "p \<in> set (glob_sources w t) \<Longrightarrow> \<exists>rel. p = joinpath t rel"
  by (auto simp: glob_sources_def)

lemma glob_jars_joinpath: "p \<in> set (glob_jars w t sub) \<Longrightarrow> \<exists>rel. p = joinpath t rel"
  by (auto simp: glob_jars_def)

lemma srcs_loop_all_excluded:
  "\<forall>s \<in> set srcs. is_excluded s \<Longrightarrow> srcs_loop w srcs st = st"
  by (induction srcs arbitrary: st) (auto simp: src_body_def split: prod.splits)

lemma libs_loop_all_excluded:
  "\<forall>l \<in> set libs. is_excluded l \<Longrightarrow> libs_loop w libs acc = acc"
  by (induction libs arbitrary: acc) (auto simp: lib_body_def)

lemma reconcile_all_excluded:
  "\<forall>s \<in> set srcs. is_excluded s \<Longrightarrow> \<forall>l \<in> set libs. is_excluded l \<Longrightarrow> reconcile w srcs libs = []"
  by (simp add: reconcile_def srcs_loop_all_excluded libs_loop_all_excluded)

lemma collect_Inr:
  assumes "fst (collect_target_platform_plugins ev t w) = Inr out"
  shows "\<exists>sources binaries. scan ev t w = (Inr (sources, binaries), w)
           \<and> out = reconcile w sources binaries"
proof -
  from assms obtain sources binaries w' where s: "scan ev t w = (Inr (sources, binaries), w')"
    and o: "out = reconcile w' sources binaries"
    by (auto simp: collect_target_platform_plugins_def split: prod.splits sum.splits)
  from scan_Inr [OF s] have "w' = w" by simp
  with s o show ?thesis by blast
qed

lemma collect_total:
  assumes "fst (compute_jar_name ev w) = Inr n"
  shows "\<exists>out. collect_target_platform_plugins ev t w = (Inr out, w)"
  using scan_total [OF assms, of t] by (auto simp: collect_target_platform_plugins_def)

text \<open>
  Claim C10. The filter reads the whole path string, target-platform root included. When
  the root itself contains a denylist string, every globbed source archive and every
  globbed binary archive is excluded, and the reconciled list is empty: whenever the
  collection returns it returns no entry, and it returns whenever the jar name can be
  computed.
\<close>

theorem denylisted_root_excludes_all:
  assumes "pat \<in> set PATH_BLACKLIST" and "contains pat target_path"
  shows "(\<forall>p \<in> set (glob_sources w target_path). is_excluded p)
     \<and> (\<forall>sub. \<forall>p \<in> set (glob_jars w target_path sub). is_excluded p)
     \<and> (\<forall>out. fst (collect_target_platform_plugins ev target_path w) = Inr out \<longrightarrow> out = [])
     \<and> (\<forall>n. fst (compute_jar_name ev w) = Inr n \<longrightarrow>
           fst (collect_target_platform_plugins ev target_path w) = Inr [])"
proof -
  have ex: "is_excluded (joinpath target_path rel)" for rel
    using contains_joinpath [OF assms] assms(1) by (auto simp: is_excluded_iff)
  have a: "\<forall>p \<in> set (glob_sources w target_path). is_excluded p"
    using ex by (auto dest: glob_sources_joinpath)
  have b: "\<forall>sub. \<forall>p \<in> set (glob_jars w target_path sub). is_excluded p"
    using ex by (auto dest: glob_jars_joinpath)
  have c: "out = []" if "fst (collect_target_platform_plugins ev target_path w) = Inr out" for out
  proof -
    from collect_Inr [OF that] obtain sources binaries
      where s: "scan ev target_path w = (Inr (sources, binaries), w)"
        and o: "out = reconcile w sources binaries" by blast
    from scan_Inr [OF s] a b have "\<forall>s \<in> set sources. is_excluded s" "\<forall>l \<in> set binaries. is_excluded l"
      by auto
    with o show ?thesis by (simp add: reconcile_all_excluded)
  qed
  have d: "fst (collect_target_platform_plugins ev target_path w) = Inr []"
    if "fst (compute_jar_name ev w) = Inr n" for n
  proof -
    from collect_total [OF that, of target_path] obtain out
      where "collect_target_platform_plugins ev target_path w = (Inr out, w)" by blast
    then have e: "fst (collect_target_platform_plugins ev target_path w) = Inr out" by simp
    from c [OF e] e show ?thesis by simp
  qed
  from a b c d show ?thesis by blast
qed

theorem denylisted_root_excludes_all_witness:
  "''/jre/'' \<in> set PATH_BLACKLIST \<and> contains ''/jre/'' ''/opt/jre/tp''
   \<and> glob_sources (demo_world ''/w/proj'' denylisted_root_tree) ''/opt/jre/tp''
        = [''/opt/jre/tp/plugins/x.source_1.jar'']
   \<and> glob_jars (demo_world ''/w/proj'' denylisted_root_tree) ''/opt/jre/tp'' ''plugins''
        = [''/opt/jre/tp/plugins/x_1.jar'', ''/opt/jre/tp/plugins/x.source_1.jar'']
   \<and> fst (collect_target_platform_plugins demo_env ''/opt/jre/tp''
          (demo_world ''/w/proj'' denylisted_root_tree)) = Inr []"
proof -
  have a: "''/jre/'' \<in> set PATH_BLACKLIST" by (simp add: PATH_BLACKLIST_def)
  have b: "contains ''/jre/'' ''/opt/jre/tp''" by simp
  have c: "glob_sources (demo_world ''/w/proj'' denylisted_root_tree) ''/opt/jre/tp''
        = [''/opt/jre/tp/plugins/x.source_1.jar'']" by code_simp
  have d: "glob_jars (demo_world ''/w/proj'' denylisted_root_tree) ''/opt/jre/tp'' ''plugins''
        = [''/opt/jre/tp/plugins/x_1.jar'', ''/opt/jre/tp/plugins/x.source_1.jar'']" by code_simp
  have n: "fst (compute_jar_name demo_env (demo_world ''/w/proj'' denylisted_root_tree))
        = Inr ''org.demo.plugin_1.0.jar''" by code_simp
  from denylisted_root_excludes_all [OF a b, of "demo_world ''/w/proj'' denylisted_root_tree" demo_env] n
  have "fst (collect_target_platform_plugins demo_env ''/opt/jre/tp''
          (demo_world ''/w/proj'' denylisted_root_tree)) = Inr []" by blast
  with a b c d show ?thesis by blast
qed

lemma src_body_not_member:
  assumes "\<not> is_excluded src" and "sibling src \<notin> set libs"
  shows "src_body w src (libs, target_classpaths) =
     (libs, if is_file w (sibling src) \<and> is_file w src
            then target_classpaths @
                 [classpathentry [(''kind'', ''lib''), (''path'', sibling src), (''sourcepath'', src)]]
            else target_classpaths)"
  using assms by (simp add: src_body_def Let_def remove1_idem)

lemma srcs_loop_snd:
  "snd (srcs_loop w srcs (libs, acc)) = acc @ map paired_entry (filter (ok_src w) srcs)"
  by (induction srcs arbitrary: libs acc)
     (auto simp: src_body_def Let_def paired_entry_def ok_src_def)

lemma srcs_loop_fst_subset:
  "set (fst (srcs_loop w srcs (libs, acc))) \<subseteq> set libs"
proof (induction srcs arbitrary: libs acc)
  case Nil
  then show ?case by simp
next
  case (Cons s srcs)
  obtain l a where b: "src_body w s (libs, acc) = (l, a)" by (cases "src_body w s (libs, acc)")
  then have "set l \<subseteq> set libs"
    using set_remove1_subset [of "sibling s" libs]
    by (auto simp: src_body_def Let_def split: if_splits)
  with Cons.IH [of l a] b show ?case by auto
qed

lemma srcs_loop_fst_distinct:
  "distinct libs \<Longrightarrow> distinct (fst (srcs_loop w srcs (libs, acc)))"
proof (induction srcs arbitrary: libs acc)
  case Nil
  then show ?case by simp
next
  case (Cons s srcs)
  obtain l a where b: "src_body w s (libs, acc) = (l, a)" by (cases "src_body w s (libs, acc)")
  with Cons.prems have "distinct l"
    by (auto simp: src_body_def Let_def split: if_splits)
  with Cons.IH [of l a] b show ?case by auto
qed

lemma srcs_loop_fst_removed:
  "distinct libs \<Longrightarrow> s \<in> set srcs \<Longrightarrow> \<not> is_excluded s \<Longrightarrow>
     sibling s \<notin> set (fst (srcs_loop w srcs (libs, acc)))"
proof (induction srcs arbitrary: libs acc)
  case Nil
  then show ?case by simp
next
  case (Cons x srcs)
  obtain l a where b: "src_body w x (libs, acc) = (l, a)" by (cases "src_body w x (libs, acc)")
  with Cons.prems(1) have dl: "distinct l"
    by (auto simp: src_body_def Let_def split: if_splits)
  show ?case
  proof (cases "s = x")
    case True
    with b Cons.prems have "sibling s \<notin> set l"
      by (auto simp: src_body_def Let_def split: if_splits)
    with srcs_loop_fst_subset [of w srcs l a] b show ?thesis by auto
  next
    case False
    with Cons.prems have "s \<in> set srcs" by simp
    from Cons.IH [OF dl this Cons.prems(3), of a] b show ?thesis by simp
  qed
qed

lemma libs_loop_eq:
  "libs_loop w libs acc = acc @ map single_entry (filter (\<lambda>l. \<not> is_excluded l \<and> is_file w l) libs)"
  by (induction libs arbitrary: acc) (auto simp: lib_body_def single_entry_def)

lemma reconcile_eq:
  "reconcile w srcs libs =
     sort_key (\<lambda>x. get x ''path'')
       (map paired_entry (filter (ok_src w) srcs) @
        map single_entry (filter (\<lambda>l. \<not> is_excluded l \<and> is_file w l)
          (fst (srcs_loop w srcs (libs, [])))))"
proof -
  obtain l a where b: "srcs_loop w srcs (libs, []) = (l, a)" by (cases "srcs_loop w srcs (libs, [])")
  with srcs_loop_snd [of w srcs libs "[]"] have "a = map paired_entry (filter (ok_src w) srcs)" by simp
  with b show ?thesis by (simp add: reconcile_def libs_loop_eq)
qed

lemma get_paired [simp]:
  "get (paired_entry s) ''sourcepath'' = Some s"
  "get (paired_entry s) ''path'' = Some (sibling s)"
  "get (paired_entry s) ''kind'' = Some ''lib''"
  by (simp_all add: paired_entry_def classpathentry_def get_def)

lemma get_single [simp]:
  "get (single_entry l) ''sourcepath'' = None"
  "get (single_entry l) ''path'' = Some l"
  "get (single_entry l) ''kind'' = Some ''lib''"
  by (simp_all add: single_entry_def classpathentry_def get_def)


lemma filter_eq_singleton: "distinct xs \<Longrightarrow> x \<in> set xs \<Longrightarrow> filter (\<lambda>y. y = x) xs = [x]"
  by (induction xs) (auto simp: filter_empty_conv)

lemma distinct_map_sort_key: "distinct (map f (sort_key k xs)) = distinct (map f xs)"
  by (simp add: distinct_map)

lemma set_reconcile:
  "set (reconcile w srcs libs) =
     paired_entry ` {s \<in> set srcs. ok_src w s}
     \<union> single_entry ` {l \<in> set (fst (srcs_loop w srcs (libs, []))). \<not> is_excluded l \<and> is_file w l}"
  by (auto simp: reconcile_eq)

lemma reconcile_one_entry_per_source:
  assumes "distinct srcs" and "s \<in> set srcs" and "ok_src w s"
  shows "filter (\<lambda>x. get x ''sourcepath'' = Some s) (reconcile w srcs libs) = [paired_entry s]"
proof -
  have "filter (\<lambda>s'. s' = s) (filter (ok_src w) srcs) = [s]"
    using assms by (intro filter_eq_singleton) auto
  then have a: "filter (\<lambda>x. get x ''sourcepath'' = Some s) (map paired_entry (filter (ok_src w) srcs))
      = [paired_entry s]"
    by (simp add: filter_map comp_def)
  have b: "filter (\<lambda>x. get x ''sourcepath'' = Some s) (map single_entry ls) = []" for ls
    by (simp add: filter_map comp_def)
  show ?thesis by (simp add: reconcile_eq filter_sort a b)
qed

lemma reconcile_sourceless_distinct:
  assumes "distinct libs"
  shows "distinct (map (\<lambda>x. get x ''path'')
           (filter (\<lambda>x. get x ''sourcepath'' = None) (reconcile w srcs libs)))"
proof -
  let ?L = "filter (\<lambda>l. \<not> is_excluded l \<and> is_file w l) (fst (srcs_loop w srcs (libs, [])))"
  have a: "filter (\<lambda>x. get x ''sourcepath'' = None) (map paired_entry ss) = []" for ss
    by (simp add: filter_map comp_def)
  have b: "filter (\<lambda>x. get x ''sourcepath'' = None) (map single_entry ?L) = map single_entry ?L"
    by (simp add: filter_map comp_def)
  have "distinct ?L" using srcs_loop_fst_distinct [OF assms] by simp
  then have c: "distinct (map (\<lambda>x. get x ''path'') (map single_entry ?L))"
    by (simp add: comp_def distinct_map inj_on_def)
  show ?thesis
    by (simp only: reconcile_eq filter_sort filter_append a b append_Nil distinct_map_sort_key c)
qed

lemma reconcile_sourced_distinct:
  assumes "distinct srcs"
  shows "distinct (map (\<lambda>x. get x ''sourcepath'')
           (filter (\<lambda>x. get x ''sourcepath'' \<noteq> None) (reconcile w srcs libs)))"
proof -
  let ?S = "filter (ok_src w) srcs"
  have a: "filter (\<lambda>x. get x ''sourcepath'' \<noteq> None) (map paired_entry ?S) = map paired_entry ?S"
    by (simp add: filter_map comp_def)
  have b: "filter (\<lambda>x. get x ''sourcepath'' \<noteq> None) (map single_entry ls) = []" for ls
    by (simp add: filter_map comp_def)
  have "distinct ?S" using assms by simp
  then have c: "distinct (map (\<lambda>x. get x ''sourcepath'') (map paired_entry ?S))"
    by (simp add: comp_def distinct_map inj_on_def)
  show ?thesis
    by (simp only: reconcile_eq filter_sort filter_append a b append_Nil2 distinct_map_sort_key c)
qed

lemma reconcile_sourceless_not_paired:
  assumes "distinct libs" and "x \<in> set (reconcile w srcs libs)" and "y \<in> set (reconcile w srcs libs)"
    and "get x ''sourcepath'' = None" and "get y ''sourcepath'' \<noteq> None"
  shows "get x ''path'' \<noteq> get y ''path''"
proof -
  from assms(2,4) obtain l where l: "l \<in> set (fst (srcs_loop w srcs (libs, [])))" and x: "x = single_entry l"
    by (auto simp: set_reconcile)
  from assms(3,5) obtain s where s: "s \<in> set srcs" "ok_src w s" and y: "y = paired_entry s"
    by (auto simp: set_reconcile)
  from s have "sibling s \<notin> set (fst (srcs_loop w srcs (libs, [])))"
    using srcs_loop_fst_removed [OF assms(1), of s srcs w "[]"] by (simp add: ok_src_def)
  with l x y show ?thesis by auto
qed

lemma reconcile_binary_not_sourceless:
  assumes "distinct libs" and "s \<in> set srcs" and "\<not> is_excluded s"
    and "x \<in> set (reconcile w srcs libs)" and "get x ''path'' = Some (sibling s)"
  shows "get x ''sourcepath'' \<noteq> None"
proof
  assume n: "get x ''sourcepath'' = None"
  with assms(4) obtain l where l: "l \<in> set (fst (srcs_loop w srcs (libs, [])))" and x: "x = single_entry l"
    by (auto simp: set_reconcile)
  from srcs_loop_fst_removed [OF assms(1,2,3), of w "[]"] l x assms(5) show False by auto
qed

lemma reconcile_sourced_shape:
  assumes "x \<in> set (reconcile w srcs libs)" and "get x ''sourcepath'' = Some s"
  shows "x = paired_entry s"
  using assms by (auto simp: set_reconcile)

lemma scan_distinct:
  assumes "scan ev t w = (Inr (sources, binaries), w')"
  shows "distinct sources \<and> distinct binaries"
  using scan_Inr [OF assms] by simp

lemma srcs_loop_append:
  "srcs_loop w (xs @ ys) st = srcs_loop w ys (srcs_loop w xs st)"
  by (induction xs arbitrary: st) auto

text \<open>
  Claim C1, as the code has it. Take a source archive \<open>s\<close> that passes the filter and
  whose sibling is not among the binaries the scan produced. Its round of the first loop
  leaves the working list as it found it: no binary is removed. But the round does add a
  \<open>lib\<close> entry, with the sibling as \<open>path\<close> and \<open>s\<close> as \<open>sourcepath\<close>, whenever the
  sibling and \<open>s\<close> are both regular files on disk, and adds none otherwise: the test of
  line 140 asks the disk, not the binaries.
\<close>

theorem source_without_scanned_binary:
  assumes "\<not> is_excluded s" and "sibling s \<notin> set binaries"
  shows "srcs_loop w (before @ s # after) (binaries, []) =
           srcs_loop w after
             (fst (srcs_loop w before (binaries, [])),
              snd (srcs_loop w before (binaries, [])) @
                (if is_file w (sibling s) \<and> is_file w s
                 then [classpathentry [(''kind'', ''lib''), (''path'', sibling s), (''sourcepath'', s)]]
                 else []))"
proof -
  obtain l a where b: "srcs_loop w before (binaries, []) = (l, a)"
    by (cases "srcs_loop w before (binaries, [])")
  with srcs_loop_fst_subset [of w before binaries "[]"] assms(2) have "sibling s \<notin> set l" by auto
  from src_body_not_member [OF assms(1) this, of w a] b show ?thesis
    by (simp add: srcs_loop_append)
qed

theorem source_without_scanned_binary_witness:
  "\<not> is_excluded ''/tp/extras/z.source_1.jar''
   \<and> sibling ''/tp/extras/z.source_1.jar'' \<notin> set [''/tp/plugins/x_1.jar'']
   \<and> srcs_loop (demo_world ''/w/proj'' unscanned_pair_tree)
        ([''/tp/plugins/x.source_1.jar''] @ ''/tp/extras/z.source_1.jar'' # [])
        ([''/tp/plugins/x_1.jar''], [])
      = ([], [classpathentry [(''kind'', ''lib''), (''path'', ''/tp/extras/z_1.jar''),
                (''sourcepath'', ''/tp/extras/z.source_1.jar'')]])"
proof -
  have a: "\<not> is_excluded ''/tp/extras/z.source_1.jar''" by code_simp
  have b: "sibling ''/tp/extras/z.source_1.jar'' \<notin> set [''/tp/plugins/x_1.jar'']" by code_simp
  have c: "srcs_loop (demo_world ''/w/proj'' unscanned_pair_tree)
            [''/tp/plugins/x.source_1.jar''] ([''/tp/plugins/x_1.jar''], []) = ([], [])"
    by code_simp
  have d: "is_file (demo_world ''/w/proj'' unscanned_pair_tree) (sibling ''/tp/extras/z.source_1.jar'')
      \<and> is_file (demo_world ''/w/proj'' unscanned_pair_tree) ''/tp/extras/z.source_1.jar''"
    by code_simp
  have e: "sibling ''/tp/extras/z.source_1.jar'' = ''/tp/extras/z_1.jar''" by code_simp
  from source_without_scanned_binary [OF a b, of "demo_world ''/w/proj'' unscanned_pair_tree"
      "[''/tp/plugins/x.source_1.jar'']" "[]"] a b c d e
  show ?thesis by simp
qed

text \<open>
  The claim as the specification states it fails: a pair outside the four scanned
  subtrees has its sibling on disk but not among the binaries, and is listed.
\<close>

theorem unscanned_sibling_counterexample:
  "\<not> is_excluded ''/tp/extras/z.source_1.jar''
   \<and> sibling ''/tp/extras/z.source_1.jar'' = ''/tp/extras/z_1.jar''
   \<and> fst (scan demo_env ''/tp'' (demo_world ''/w/proj'' unscanned_pair_tree))
        = Inr ([''/tp/extras/z.source_1.jar''], [])
   \<and> fst (collect_target_platform_plugins demo_env ''/tp'' (demo_world ''/w/proj'' unscanned_pair_tree))
        = Inr [classpathentry [(''kind'', ''lib''), (''path'', ''/tp/extras/z_1.jar''),
                 (''sourcepath'', ''/tp/extras/z.source_1.jar'')]]"
  by code_simp

text \<open>
  Claim C7, as the code has it. For a globbed source archive \<open>s\<close> that passes the filter,
  with \<open>s\<close> and its sibling both regular files, the collected list holds exactly one
  entry with \<open>s\<close> as \<open>sourcepath\<close>, the \<open>lib\<close> entry of the sibling, and no entry without
  \<open>sourcepath\<close> has the sibling as \<open>path\<close>. Entries without \<open>sourcepath\<close> have
  pairwise different paths, entries with \<open>sourcepath\<close> have pairwise different
  sourcepaths, and no entry without \<open>sourcepath\<close> shares its path with one that has it;
  every entry with a \<open>sourcepath\<close> has the sibling of that source as its path. Two
  entries that both carry a \<open>sourcepath\<close> may share a path.
\<close>

theorem reconcile_pairs:
  assumes "fst (collect_target_platform_plugins ev target_path w) = Inr out"
    and "s \<in> set (glob_sources w target_path)" and "\<not> is_excluded s"
    and "is_file w s" and "is_file w (sibling s)"
  shows "filter (\<lambda>x. get x ''sourcepath'' = Some s) out
           = [classpathentry [(''kind'', ''lib''), (''path'', sibling s), (''sourcepath'', s)]]
     \<and> (\<forall>x \<in> set out. get x ''path'' = Some (sibling s) \<longrightarrow> get x ''sourcepath'' \<noteq> None)
     \<and> distinct (map (\<lambda>x. get x ''path'') (filter (\<lambda>x. get x ''sourcepath'' = None) out))
     \<and> distinct (map (\<lambda>x. get x ''sourcepath'') (filter (\<lambda>x. get x ''sourcepath'' \<noteq> None) out))
     \<and> (\<forall>x \<in> set out. \<forall>y \<in> set out.
          get x ''sourcepath'' = None \<and> get y ''sourcepath'' \<noteq> None \<longrightarrow> get x ''path'' \<noteq> get y ''path'')
     \<and> (\<forall>x \<in> set out. \<forall>s'. get x ''sourcepath'' = Some s' \<longrightarrow>
          x = classpathentry [(''kind'', ''lib''), (''path'', sibling s'), (''sourcepath'', s')])"
proof -
  from collect_Inr [OF assms(1)] obtain sources binaries
    where sc: "scan ev target_path w = (Inr (sources, binaries), w)"
      and o: "out = reconcile w sources binaries" by blast
  from scan_distinct [OF sc] have ds: "distinct sources" and db: "distinct binaries" by simp_all
  from scan_Inr [OF sc] assms(2) have m: "s \<in> set sources" by simp
  from assms(3,4,5) have ok: "ok_src w s" by (simp add: ok_src_def)
  have 1: "filter (\<lambda>x. get x ''sourcepath'' = Some s) out
           = [classpathentry [(''kind'', ''lib''), (''path'', sibling s), (''sourcepath'', s)]]"
    using reconcile_one_entry_per_source [OF ds m ok, of binaries] o by (simp add: paired_entry_def)
  have 2: "\<forall>x \<in> set out. get x ''path'' = Some (sibling s) \<longrightarrow> get x ''sourcepath'' \<noteq> None"
    using reconcile_binary_not_sourceless [OF db m assms(3)] o by blast
  have 3: "distinct (map (\<lambda>x. get x ''path'') (filter (\<lambda>x. get x ''sourcepath'' = None) out))"
    using reconcile_sourceless_distinct [OF db] o by simp
  have 4: "distinct (map (\<lambda>x. get x ''sourcepath'') (filter (\<lambda>x. get x ''sourcepath'' \<noteq> None) out))"
    using reconcile_sourced_distinct [OF ds] o by simp
  have 5: "\<forall>x \<in> set out. \<forall>y \<in> set out.
          get x ''sourcepath'' = None \<and> get y ''sourcepath'' \<noteq> None \<longrightarrow> get x ''path'' \<noteq> get y ''path''"
    using reconcile_sourceless_not_paired [OF db] o by blast
  have 6: "\<forall>x \<in> set out. \<forall>s'. get x ''sourcepath'' = Some s' \<longrightarrow>
          x = classpathentry [(''kind'', ''lib''), (''path'', sibling s'), (''sourcepath'', s')]"
    using reconcile_sourced_shape o by (auto simp: paired_entry_def)
  from 1 2 3 4 5 6 show ?thesis by blast
qed


theorem reconcile_pairs_witness:
  "fst (collect_target_platform_plugins demo_env ''/tp'' (demo_world ''/w/proj'' own_jar_tree))
     = Inr [classpathentry [(''kind'', ''lib''), (''path'', ''/tp/dropins/y.jar'')],
            classpathentry [(''kind'', ''lib''), (''path'', ''/tp/plugins/x_1.jar''),
              (''sourcepath'', ''/tp/plugins/x.source_1.jar'')]]
   \<and> ''/tp/plugins/x.source_1.jar'' \<in> set (glob_sources (demo_world ''/w/proj'' own_jar_tree) ''/tp'')
   \<and> \<not> is_excluded ''/tp/plugins/x.source_1.jar''
   \<and> is_file (demo_world ''/w/proj'' own_jar_tree) ''/tp/plugins/x.source_1.jar''
   \<and> is_file (demo_world ''/w/proj'' own_jar_tree) (sibling ''/tp/plugins/x.source_1.jar'')
   \<and> filter (\<lambda>x. get x ''sourcepath'' = Some ''/tp/plugins/x.source_1.jar'')
        [classpathentry [(''kind'', ''lib''), (''path'', ''/tp/dropins/y.jar'')],
         classpathentry [(''kind'', ''lib''), (''path'', ''/tp/plugins/x_1.jar''),
           (''sourcepath'', ''/tp/plugins/x.source_1.jar'')]]
      = [classpathentry [(''kind'', ''lib''), (''path'', sibling ''/tp/plugins/x.source_1.jar''),
           (''sourcepath'', ''/tp/plugins/x.source_1.jar'')]]"
proof -
  have a: "fst (collect_target_platform_plugins demo_env ''/tp'' (demo_world ''/w/proj'' own_jar_tree))
     = Inr [classpathentry [(''kind'', ''lib''), (''path'', ''/tp/dropins/y.jar'')],
            classpathentry [(''kind'', ''lib''), (''path'', ''/tp/plugins/x_1.jar''),
              (''sourcepath'', ''/tp/plugins/x.source_1.jar'')]]" by code_simp
  have b: "''/tp/plugins/x.source_1.jar'' \<in> set (glob_sources (demo_world ''/w/proj'' own_jar_tree) ''/tp'')"
    by code_simp
  have c: "\<not> is_excluded ''/tp/plugins/x.source_1.jar''" by code_simp
  have d: "is_file (demo_world ''/w/proj'' own_jar_tree) ''/tp/plugins/x.source_1.jar''" by code_simp
  have e: "is_file (demo_world ''/w/proj'' own_jar_tree) (sibling ''/tp/plugins/x.source_1.jar'')"
    by code_simp
  from reconcile_pairs [OF a b c d e] a b c d e show ?thesis by blast
qed

text \<open>
  The claim as the specification states it fails in its last part: \<open>str.replace\<close>
  rewrites every occurrence of the marker, so two source archives can have the same
  sibling, and the list then holds two \<open>lib\<close> entries with the same path.
\<close>

theorem shared_sibling_counterexample:
  "\<not> is_excluded ''/tp/plugins/a.source_.source_1.jar''
   \<and> \<not> is_excluded ''/tp/plugins/a_.source_1.jar''
   \<and> \<not> is_excluded ''/tp/plugins/a__1.jar''
   \<and> sibling ''/tp/plugins/a.source_.source_1.jar'' = ''/tp/plugins/a__1.jar''
   \<and> sibling ''/tp/plugins/a_.source_1.jar'' = ''/tp/plugins/a__1.jar''
   \<and> is_file (demo_world ''/w/proj'' shared_sibling_tree) ''/tp/plugins/a.source_.source_1.jar''
   \<and> is_file (demo_world ''/w/proj'' shared_sibling_tree) ''/tp/plugins/a_.source_1.jar''
   \<and> is_file (demo_world ''/w/proj'' shared_sibling_tree) ''/tp/plugins/a__1.jar''
   \<and> fst (collect_target_platform_plugins demo_env ''/tp'' (demo_world ''/w/proj'' shared_sibling_tree))
        = Inr [classpathentry [(''kind'', ''lib''), (''path'', ''/tp/plugins/a__1.jar''),
                 (''sourcepath'', ''/tp/plugins/a.source_.source_1.jar'')],
               classpathentry [(''kind'', ''lib''), (''path'', ''/tp/plugins/a__1.jar''),
                 (''sourcepath'', ''/tp/plugins/a_.source_1.jar'')]]"
  by code_simp


section \<open>Properties of the Manifest Classpath Patcher\<close>

lemma patch_loop_append:
  "patch_loop bc (xs @ ys) st = patch_loop bc ys (patch_loop bc xs st)"
  by (induction bc xs st rule: patch_loop.induct) auto

lemma continuation_no_field: "prefix '' '' l \<Longrightarrow> \<not> prefix ''Bundle-ClassPath:'' l"
  by (cases l) auto

lemma patch_loop_continuations:
  "\<forall>l \<in> set cont. prefix '' '' l \<Longrightarrow>
     patch_loop bc (cont @ rest) (m, f, True) = patch_loop bc rest (m, f, True)"
  by (induction cont) (auto dest: continuation_no_field)

text \<open>
  Claim C2, as the code has it. Every line that begins with the field prefix is rewritten,
  not only the first: wherever such a line stands, and whatever came before it (an
  earlier occurrence of the field included), the loop puts the new field-plus-value
  block in its place and drops the continuation lines that follow it. The flag
  \<open>found_bundle_classpath\<close> guards the appending after the loop, not the rewriting.
\<close>

theorem every_field_line_rewritten:
  assumes "prefix ''Bundle-ClassPath:'' line" and "\<forall>l \<in> set cont. prefix '' '' l"
  shows "patch_loop bc (before @ line # cont @ after) st =
           patch_loop bc after (fst (patch_loop bc before st) @ bc @ [CHR 0x0A], True, True)"
proof -
  obtain m f i where b: "patch_loop bc before st = (m, f, i)"
    by (cases "patch_loop bc before st")
  have "patch_loop bc (line # cont @ after) (m, f, i)
      = patch_loop bc (cont @ after) (m @ bc @ [CHR 0x0A], True, True)"
    using assms(1) by simp
  also have "\<dots> = patch_loop bc after (m @ bc @ [CHR 0x0A], True, True)"
    using assms(2) by (rule patch_loop_continuations)
  finally show ?thesis using b by (simp add: patch_loop_append)
qed

theorem every_field_line_rewritten_witness:
  "prefix ''Bundle-ClassPath:'' ''Bundle-ClassPath: c'' \<and> prefix '' '' '' d''
   \<and> patch_loop ''Bundle-ClassPath: .''
        ([''Bundle-ClassPath: a,'', '' b'', ''Bundle-Name: Demo''] @
         ''Bundle-ClassPath: c'' # ['' d''] @ [''Require-Bundle: e''])
        ([], False, False)
      = (''Bundle-ClassPath: .\<newline>Bundle-Name: Demo\<newline>Bundle-ClassPath: .\<newline>Require-Bundle: e\<newline>'',
         True, False)"
proof -
  have a: "prefix ''Bundle-ClassPath:'' ''Bundle-ClassPath: c''" by simp
  have b: "\<forall>l \<in> set ['' d'']. prefix '' '' l" by simp
  have c: "patch_loop ''Bundle-ClassPath: .'' [''Bundle-ClassPath: a,'', '' b'', ''Bundle-Name: Demo'']
             ([], False, False) = (''Bundle-ClassPath: .\<newline>Bundle-Name: Demo\<newline>'', True, False)"
    by code_simp
  have d: "patch_loop ''Bundle-ClassPath: .'' [''Require-Bundle: e'']
             (''Bundle-ClassPath: .\<newline>Bundle-Name: Demo\<newline>'' @ ''Bundle-ClassPath: .'' @ [CHR 0x0A], True, True)
           = (''Bundle-ClassPath: .\<newline>Bundle-Name: Demo\<newline>Bundle-ClassPath: .\<newline>Require-Bundle: e\<newline>'',
              True, False)"
    by code_simp
  from every_field_line_rewritten [OF a b, of "''Bundle-ClassPath: .''"
      "[''Bundle-ClassPath: a,'', '' b'', ''Bundle-Name: Demo'']" "[''Require-Bundle: e'']"
      "([], False, False)"] c d
  have "patch_loop ''Bundle-ClassPath: .''
        ([''Bundle-ClassPath: a,'', '' b'', ''Bundle-Name: Demo''] @
         ''Bundle-ClassPath: c'' # ['' d''] @ [''Require-Bundle: e''])
        ([], False, False)
      = (''Bundle-ClassPath: .\<newline>Bundle-Name: Demo\<newline>Bundle-ClassPath: .\<newline>Require-Bundle: e\<newline>'',
         True, False)"
    by simp
  with a show ?thesis by simp
qed

text \<open>
  The claim as the specification states it fails: in a manifest with two lines that
  begin with the field prefix, the second is rewritten like the first and is not
  passed through.
\<close>

theorem second_field_line_counterexample:
  "read_text MANIFEST_PATH (demo_world ''/w/proj'' manifest_tree)
     = Inr ''Manifest-Version: 1.0\<newline>Bundle-ClassPath: a,\<newline> b\<newline>Bundle-Name: Demo  \<newline>Bundle-ClassPath: c\<newline>''
   \<and> read_text MANIFEST_PATH
        (snd (update_bundle_classpath demo_env [''/m2/repo/a/z.jar'', ''/m2/repo/b/c.jar'']
               (demo_world ''/w/proj'' manifest_tree)))
     = Inr ''Manifest-Version: 1.0\<newline>Bundle-ClassPath: .,\<newline> lib/c.jar,\<newline> lib/z.jar\<newline>Bundle-Name: Demo\<newline>Bundle-ClassPath: .,\<newline> lib/c.jar,\<newline> lib/z.jar\<newline>''"
  by code_simp







section \<open>Properties of \<open>build_classpath\<close>\<close>

lemma same_but_console_refl [simp]: "same_but_console w w"
  by (simp add: same_but_console_def)

lemma same_but_console_echo [simp]: "same_but_console w (echo msg w)"
  by (simp add: same_but_console_def echo_def)

lemma same_but_console_trans:
  "same_but_console a b \<Longrightarrow> same_but_console b c \<Longrightarrow> same_but_console a c"
  by (simp add: same_but_console_def)

lemma read_xml_file_same: "read_xml_file ev p w = (r, w') \<Longrightarrow> same_but_console w w'"
  by (auto simp: read_xml_file_def split: option.splits node.splits)

lemma compute_jar_name_same: "compute_jar_name ev w = (r, w') \<Longrightarrow> same_but_console w w'"
  by (auto simp: compute_jar_name_def Let_def split: prod.splits sum.splits dest: read_xml_file_same)

lemma drop_own_jar_same: "drop_own_jar ev libs w = (r, w') \<Longrightarrow> same_but_console w w'"
proof (induction libs arbitrary: w r w')
  case Nil
  then show ?case by simp
next
  case (Cons lst libs)
  obtain r1 w1 where c: "compute_jar_name ev w = (r1, w1)" by (cases "compute_jar_name ev w")
  note s1 = compute_jar_name_same [OF c]
  show ?case
  proof (cases r1)
    case (Inl e)
    with Cons.prems c s1 show ?thesis by simp
  next
    case (Inr n)
    obtain r2 w2 where d: "drop_own_jar ev libs w1 = (r2, w2)" by (cases "drop_own_jar ev libs w1")
    from Cons.IH [OF d] s1 have "same_but_console w w2" by (rule same_but_console_trans [rotated])
    moreover from Cons.prems c Inr d have "w' = w2" by (auto split: sum.splits)
    ultimately show ?thesis by simp
  qed
qed

lemma scan_same: "scan ev t w = (r, w') \<Longrightarrow> same_but_console w w'"
  by (auto simp: scan_def Let_def split: prod.splits sum.splits dest: drop_own_jar_same)

lemma collect_same: "collect_target_platform_plugins ev t w = (r, w') \<Longrightarrow> same_but_console w w'"
  by (auto simp: collect_target_platform_plugins_def split: prod.splits sum.splits dest: scan_same)

lemma map_of_store: "map_of (store k v xs) k = Some v"
  by (induction xs) auto

lemma build_classpath_cases:
  assumes "build_classpath ev filename target w = (r, w')"
  shows
    "(\<not> is_dir w target \<and> r = Some (SysExit 1) \<and> same_but_console w w')
     \<or> (is_dir w target \<and> find_eclipse_jdtls_project_directory filename w = None
          \<and> (\<exists>msg. r = Some (RuntimeError msg)) \<and> w' = w)
     \<or> (\<exists>pd. is_dir w target \<and> find_eclipse_jdtls_project_directory filename w = Some pd \<and>
          ((\<not> is_dir w pd \<and> r = Some (OSError pd) \<and> w' = w)
           \<or> (is_dir w pd \<and> \<not> is_dir (in_project pd w) pd \<and> r = Some (OSError pd) \<and> w' = in_project pd w)
           \<or> (is_dir w pd \<and> is_dir (in_project pd w) pd \<and>
               ((returncode (tool_run ev pd w) \<noteq> 0 \<and> r = Some (RuntimeError (stdout (tool_run ev pd w)))
                   \<and> w' = after_tool ev pd w)
                \<or> (returncode (tool_run ev pd w) = 0 \<and>
                    ((\<exists>e. collect_target_platform_plugins ev target (after_tool ev pd w) = (Inl e, w')
                          \<and> r = Some e)
                     \<or> (\<exists>tcs w4. collect_target_platform_plugins ev target (after_tool ev pd w) = (Inr tcs, w4)
                          \<and> ((is_dir w4 ''.classpath'' \<and> r = Some (OSError ''.classpath'') \<and> w' = w4)
                            \<or> (\<not> is_dir w4 ''.classpath'' \<and> r = None \<and>
                                w' = echo ''Created `.classpath` file.''
                                       (w4\<lparr>fs := store (resolve w4 ''.classpath'')
                                           (File (tostring ev (assembled ev pd w tcs))) (fs w4)\<rparr>))))))))))"
proof -
  note defs = build_classpath_def Let_def chdir_def subprocess_run_def write_bytes_def
    in_project_def tool_run_def after_tool_def assembled_def echo_def
  show ?thesis
  proof (cases "is_dir w target")
    case False
    with assms show ?thesis by (auto simp: build_classpath_def Let_def)
  next
    case t: True
    show ?thesis
    proof (cases "find_eclipse_jdtls_project_directory filename w")
      case None
      with assms t show ?thesis by (auto simp: build_classpath_def Let_def)
    next
      case (Some pd)
      show ?thesis
      proof (cases "is_dir w pd")
        case False
        with assms t Some show ?thesis by (auto simp: build_classpath_def Let_def chdir_def)
      next
        case d1: True
        show ?thesis
        proof (cases "is_dir (in_project pd w) pd")
          case False
          with assms t Some d1 show ?thesis by (auto simp: defs)
        next
          case d2: True
          show ?thesis
          proof (cases "returncode (tool_run ev pd w) = 0")
            case False
            with assms t Some d1 d2 show ?thesis by (auto simp: defs)
          next
            case rc: True
            obtain cr w4 where c: "collect_target_platform_plugins ev target (after_tool ev pd w) = (cr, w4)"
              by (cases "collect_target_platform_plugins ev target (after_tool ev pd w)")
            show ?thesis
            proof (cases cr)
              case (Inl e)
              with assms t Some d1 d2 rc c show ?thesis by (auto simp: defs)
            next
              case (Inr tcs)
              with assms t Some d1 d2 rc c show ?thesis
                by (cases "is_dir w4 ''.classpath''") (auto simp: defs)
            qed
          qed
        qed
      qed
    qed
  qed
qed


lemma resolve_cwd: "cwd a = cwd b \<Longrightarrow> resolve a p = resolve b p"
  by (simp add: resolve_def)

lemma after_tool_simps [simp]:
  "cwd (after_tool ev pd w) = resolve w pd"
  "fs (after_tool ev pd w) = fs w"
  "spawned (after_tool ev pd w) = spawned w @ [(mvn_cmd ev, pd)]"
  by (simp_all add: after_tool_def in_project_def echo_def)

lemma in_project_simps [simp]:
  "cwd (in_project pd w) = resolve w pd"
  "fs (in_project pd w) = fs w"
  "spawned (in_project pd w) = spawned w"
  by (simp_all add: in_project_def echo_def)

text \<open>
  Claim C3, as the code has it. \<open>build_classpath\<close> does change the working directory of
  the process: line 224 calls \<open>os.chdir(project_dir)\<close>, and nothing changes it back.
  Whenever the tool has been run (in particular whenever the operation ran to its end),
  the working directory afterwards is the located project directory, and the tool was
  given that same directory as the \<open>cwd\<close> argument of its one invocation.
\<close>

theorem build_classpath_changes_directory:
  assumes "build_classpath ev filename target w = (r, w')"
    and "r = None \<or> spawned w' \<noteq> spawned w"
  shows "\<exists>project_dir. find_eclipse_jdtls_project_directory filename w = Some project_dir
           \<and> cwd w' = resolve w project_dir
           \<and> spawned w' = spawned w @ [(mvn_cmd ev, project_dir)]"
  using build_classpath_cases [OF assms(1)] assms(2)
  by (auto simp: same_but_console_def echo_def dest!: collect_same)

theorem build_classpath_changes_directory_witness:
  "fst (build_classpath demo_env ''/w/proj/src/A.java'' ''/tp'' (demo_world ''/home'' own_jar_tree)) = None
   \<and> find_eclipse_jdtls_project_directory ''/w/proj/src/A.java'' (demo_world ''/home'' own_jar_tree)
        = Some ''/w/proj''
   \<and> cwd (snd (build_classpath demo_env ''/w/proj/src/A.java'' ''/tp'' (demo_world ''/home'' own_jar_tree)))
        = resolve (demo_world ''/home'' own_jar_tree) ''/w/proj''
   \<and> spawned (snd (build_classpath demo_env ''/w/proj/src/A.java'' ''/tp'' (demo_world ''/home'' own_jar_tree)))
        = spawned (demo_world ''/home'' own_jar_tree) @ [(mvn_cmd demo_env, ''/w/proj'')]"
proof -
  let ?W = "demo_world ''/home'' own_jar_tree"
  let ?B = "build_classpath demo_env ''/w/proj/src/A.java'' ''/tp'' ?W"
  have a: "fst ?B = None" by code_simp
  then have b: "?B = (None, snd ?B)" by (cases ?B) simp
  have f: "find_eclipse_jdtls_project_directory ''/w/proj/src/A.java'' ?W = Some ''/w/proj''"
    by code_simp
  from build_classpath_changes_directory [OF b] obtain pd
    where "find_eclipse_jdtls_project_directory ''/w/proj/src/A.java'' ?W = Some pd"
      and "cwd (snd ?B) = resolve ?W pd"
      and "spawned (snd ?B) = spawned ?W @ [(mvn_cmd demo_env, pd)]" by blast
  with f a show ?thesis by simp
qed

text \<open>
  The claim as the specification states it fails: started in \<open>/home\<close>, the operation
  ends in \<open>/w/proj\<close>.
\<close>

theorem working_directory_counterexample:
  "cwd (demo_world ''/home'' own_jar_tree) = ''/home''
   \<and> fst (build_classpath demo_env ''/w/proj/src/A.java'' ''/tp'' (demo_world ''/home'' own_jar_tree)) = None
   \<and> cwd (snd (build_classpath demo_env ''/w/proj/src/A.java'' ''/tp'' (demo_world ''/home'' own_jar_tree)))
        = ''/w/proj''"
  by code_simp

text \<open>
  Claim C6. When \<open>build_classpath\<close> runs to its end, the document it has written to
  \<open>.classpath\<close> lists, in this order: the \<open>src\<close> entry (path \<open>src\<close>, including
  \<open>**/*.java\<close>), the \<open>output\<close> entry (path \<open>target/classes\<close>), the one \<open>con\<close> entry of
  the runtime container; then the paths the tool listed, sorted ascending, each as a
  \<open>lib\<close> entry with no \<open>sourcepath\<close>; then the entries the reconciler returned. The
  three groups are appended as they are: nothing is merged or dropped.
\<close>

theorem assembled_order:
  assumes "build_classpath ev filename target w = (None, w')"
  shows "\<exists>project_dir reconciled.
           find_eclipse_jdtls_project_directory filename w = Some project_dir
           \<and> fst (collect_target_platform_plugins ev target (after_tool ev project_dir w)) = Inr reconciled
           \<and> node_at w' ''.classpath'' =
               Some (File (tostring ev (classpath
                 ([classpathentry [(''kind'', ''src''), (''path'', ''src''), (''including'', ''**/*.java'')],
                   classpathentry [(''kind'', ''output''), (''path'', ''target/classes'')],
                   classpathentry [(''kind'', ''con''),
                     (''path'', ''org.eclipse.jdt.launching.JRE_CONTAINER/'' @
                                ''org.eclipse.jdt.internal.debug.ui.launcher.StandardVMType/'' @
                                ''JavaSE-17'')]] @
                  map (\<lambda>p. classpathentry [(''kind'', ''lib''), (''path'', p)])
                    (sort (splitlines (py_replace '':'' [CHR 0x0A]
                       (outfile (tool_run ev project_dir w))))) @
                  reconciled))))"
proof -
  from build_classpath_cases [OF assms] obtain pd tcs w4
    where f: "find_eclipse_jdtls_project_directory filename w = Some pd"
      and c: "collect_target_platform_plugins ev target (after_tool ev pd w) = (Inr tcs, w4)"
      and w': "w' = echo ''Created `.classpath` file.''
                 (w4\<lparr>fs := store (resolve w4 ''.classpath'')
                     (File (tostring ev (assembled ev pd w tcs))) (fs w4)\<rparr>)"
    by auto
  have "resolve w' ''.classpath'' = resolve w4 ''.classpath''"
    by (rule resolve_cwd) (simp add: w' echo_def)
  then have "node_at w' ''.classpath'' = Some (File (tostring ev (assembled ev pd w tcs)))"
    by (simp add: node_at_def w' echo_def map_of_store)
  with f c show ?thesis
    by (auto simp: assembled_def fixed_classpaths_def)
qed

theorem assembled_order_witness:
  "fst (build_classpath demo_env ''/w/proj/src/A.java'' ''/tp'' (demo_world ''/home'' own_jar_tree)) = None
   \<and> node_at (snd (build_classpath demo_env ''/w/proj/src/A.java'' ''/tp'' (demo_world ''/home'' own_jar_tree)))
        ''.classpath''
      = Some (File (tostring demo_env (classpath
          [classpathentry [(''kind'', ''src''), (''path'', ''src''), (''including'', ''**/*.java'')],
           classpathentry [(''kind'', ''output''), (''path'', ''target/classes'')],
           classpathentry [(''kind'', ''con''),
             (''path'', ''org.eclipse.jdt.launching.JRE_CONTAINER/org.eclipse.jdt.internal.debug.ui.launcher.StandardVMType/JavaSE-17'')],
           classpathentry [(''kind'', ''lib''), (''path'', ''/m2/repo/a.jar'')],
           classpathentry [(''kind'', ''lib''), (''path'', ''/m2/repo/b.jar'')],
           classpathentry [(''kind'', ''lib''), (''path'', ''/tp/dropins/y.jar'')],
           classpathentry [(''kind'', ''lib''), (''path'', ''/tp/plugins/x_1.jar''),
             (''sourcepath'', ''/tp/plugins/x.source_1.jar'')]])))"
proof -
  let ?W = "demo_world ''/home'' own_jar_tree"
  let ?B = "build_classpath demo_env ''/w/proj/src/A.java'' ''/tp'' ?W"
  have a: "fst ?B = None" by code_simp
  then have b: "?B = (None, snd ?B)" by (cases ?B) simp
  have f: "find_eclipse_jdtls_project_directory ''/w/proj/src/A.java'' ?W = Some ''/w/proj''"
    by code_simp
  have c: "fst (collect_target_platform_plugins demo_env ''/tp'' (after_tool demo_env ''/w/proj'' ?W))
      = Inr [classpathentry [(''kind'', ''lib''), (''path'', ''/tp/dropins/y.jar'')],
             classpathentry [(''kind'', ''lib''), (''path'', ''/tp/plugins/x_1.jar''),
               (''sourcepath'', ''/tp/plugins/x.source_1.jar'')]]"
    by code_simp
  have e: "sort (splitlines (py_replace '':'' [CHR 0x0A] (outfile (tool_run demo_env ''/w/proj'' ?W))))
      = [''/m2/repo/a.jar'', ''/m2/repo/b.jar'']"
    by code_simp
  from assembled_order [OF b] obtain pd rc
    where f': "find_eclipse_jdtls_project_directory ''/w/proj/src/A.java'' ?W = Some pd"
      and c': "fst (collect_target_platform_plugins demo_env ''/tp'' (after_tool demo_env pd ?W)) = Inr rc"
      and n: "node_at (snd ?B) ''.classpath'' =
               Some (File (tostring demo_env (classpath
                 ([classpathentry [(''kind'', ''src''), (''path'', ''src''), (''including'', ''**/*.java'')],
                   classpathentry [(''kind'', ''output''), (''path'', ''target/classes'')],
                   classpathentry [(''kind'', ''con''),
                     (''path'', ''org.eclipse.jdt.launching.JRE_CONTAINER/'' @
                                ''org.eclipse.jdt.internal.debug.ui.launcher.StandardVMType/'' @
                                ''JavaSE-17'')]] @
                  map (\<lambda>p. classpathentry [(''kind'', ''lib''), (''path'', p)])
                    (sort (splitlines (py_replace '':'' [CHR 0x0A]
                       (outfile (tool_run demo_env pd ?W))))) @
                  rc))))"
    by blast
  from f f' have pd: "pd = ''/w/proj''" by simp
  from c c' pd have rc: "rc = [classpathentry [(''kind'', ''lib''), (''path'', ''/tp/dropins/y.jar'')],
             classpathentry [(''kind'', ''lib''), (''path'', ''/tp/plugins/x_1.jar''),
               (''sourcepath'', ''/tp/plugins/x.source_1.jar'')]]" by simp
  from n a show ?thesis unfolding pd rc e by simp
qed

text \<open>
  Claim C9, as the code has it. When the tool is reached and exits with a status other
  than zero, the operation ends with a \<open>RuntimeError\<close> whose detail is the captured
  standard output of the tool; the captured standard error is not in it. Whenever the
  operation ends with an error, the files are as they were, and when it runs to its end
  the files differ from the earlier ones by one whole-file store at \<open>.classpath\<close>.
\<close>

theorem failed_tool_leaves_descriptor:
  "(is_dir w target \<and> find_eclipse_jdtls_project_directory filename w = Some project_dir
      \<and> is_dir w project_dir \<and> is_dir (in_project project_dir w) project_dir
      \<and> returncode (tool_run ev project_dir w) \<noteq> 0
    \<longrightarrow> build_classpath ev filename target w
          = (Some (RuntimeError (stdout (tool_run ev project_dir w))), after_tool ev project_dir w))
   \<and> (fst (build_classpath ev filename target w) \<noteq> None
        \<longrightarrow> fs (snd (build_classpath ev filename target w)) = fs w)
   \<and> (fst (build_classpath ev filename target w) = None
        \<longrightarrow> (\<exists>doc. fs (snd (build_classpath ev filename target w))
                   = store (resolve (snd (build_classpath ev filename target w)) ''.classpath'')
                       (File (tostring ev doc)) (fs w)))"
proof (intro conjI impI)
  assume "is_dir w target \<and> find_eclipse_jdtls_project_directory filename w = Some project_dir
      \<and> is_dir w project_dir \<and> is_dir (in_project project_dir w) project_dir
      \<and> returncode (tool_run ev project_dir w) \<noteq> 0"
  then show "build_classpath ev filename target w
          = (Some (RuntimeError (stdout (tool_run ev project_dir w))), after_tool ev project_dir w)"
    by (simp add: build_classpath_def Let_def chdir_def subprocess_run_def
          in_project_def tool_run_def after_tool_def echo_def)
next
  obtain r w' where b: "build_classpath ev filename target w = (r, w')"
    by (cases "build_classpath ev filename target w")
  note c = build_classpath_cases [OF b]
  {
    assume "fst (build_classpath ev filename target w) \<noteq> None"
    with b c show "fs (snd (build_classpath ev filename target w)) = fs w"
      by (auto simp: same_but_console_def dest!: collect_same)
  }
  {
    assume "fst (build_classpath ev filename target w) = None"
    with b c obtain pd tcs w4
      where cl: "collect_target_platform_plugins ev target (after_tool ev pd w) = (Inr tcs, w4)"
        and w': "w' = echo ''Created `.classpath` file.''
                 (w4\<lparr>fs := store (resolve w4 ''.classpath'')
                     (File (tostring ev (assembled ev pd w tcs))) (fs w4)\<rparr>)"
      by auto
    from collect_same [OF cl] have f4: "fs w4 = fs w" by (simp add: same_but_console_def)
    have "resolve w' ''.classpath'' = resolve w4 ''.classpath''"
      by (rule resolve_cwd) (simp add: w' echo_def)
    with f4 w' have "fs w' = store (resolve w' ''.classpath'')
        (File (tostring ev (assembled ev pd w tcs))) (fs w)"
      by (simp add: echo_def)
    with b show "\<exists>doc. fs (snd (build_classpath ev filename target w))
                   = store (resolve (snd (build_classpath ev filename target w)) ''.classpath'')
                       (File (tostring ev doc)) (fs w)" by auto
  }
qed


theorem failed_tool_leaves_descriptor_witness:
  "is_dir (demo_world ''/home'' manifest_tree) ''/tp''
   \<and> find_eclipse_jdtls_project_directory ''/w/proj/src/A.java'' (demo_world ''/home'' manifest_tree)
        = Some ''/w/proj''
   \<and> is_dir (demo_world ''/home'' manifest_tree) ''/w/proj''
   \<and> is_dir (in_project ''/w/proj'' (demo_world ''/home'' manifest_tree)) ''/w/proj''
   \<and> returncode (tool_run failing_env ''/w/proj'' (demo_world ''/home'' manifest_tree)) \<noteq> 0
   \<and> stdout (tool_run failing_env ''/w/proj'' (demo_world ''/home'' manifest_tree)) = ''[ERROR] BUILD FAILURE''
   \<and> fst (build_classpath failing_env ''/w/proj/src/A.java'' ''/tp'' (demo_world ''/home'' manifest_tree))
        = Some (RuntimeError ''[ERROR] BUILD FAILURE'')
   \<and> fs (snd (build_classpath failing_env ''/w/proj/src/A.java'' ''/tp'' (demo_world ''/home'' manifest_tree)))
        = fs (demo_world ''/home'' manifest_tree)"
proof -
  let ?W = "demo_world ''/home'' manifest_tree"
  have h: "is_dir ?W ''/tp''
      \<and> find_eclipse_jdtls_project_directory ''/w/proj/src/A.java'' ?W = Some ''/w/proj''
      \<and> is_dir ?W ''/w/proj'' \<and> is_dir (in_project ''/w/proj'' ?W) ''/w/proj''
      \<and> returncode (tool_run failing_env ''/w/proj'' ?W) \<noteq> 0"
    by code_simp
  have o: "stdout (tool_run failing_env ''/w/proj'' ?W) = ''[ERROR] BUILD FAILURE''" by code_simp
  note t = failed_tool_leaves_descriptor [of ?W "''/tp''" "''/w/proj/src/A.java''" "''/w/proj''" failing_env]
  from t h have r: "build_classpath failing_env ''/w/proj/src/A.java'' ''/tp'' ?W
      = (Some (RuntimeError (stdout (tool_run failing_env ''/w/proj'' ?W))), after_tool failing_env ''/w/proj'' ?W)"
    by blast
  then have r1: "fst (build_classpath failing_env ''/w/proj/src/A.java'' ''/tp'' ?W)
      = Some (RuntimeError ''[ERROR] BUILD FAILURE'')" by (simp add: o)
  with t have r2: "fs (snd (build_classpath failing_env ''/w/proj/src/A.java'' ''/tp'' ?W)) = fs ?W"
    by simp
  from h o r1 r2 show ?thesis by blast
qed

text \<open>
  The claim as the specification states it fails where it says the detail carries the
  captured standard error: what the tool wrote there is captured and not passed on.
\<close>

theorem standard_error_counterexample:
  "returncode (tool_run failing_env ''/w/proj'' (demo_world ''/home'' manifest_tree)) = 1
   \<and> stdout (tool_run failing_env ''/w/proj'' (demo_world ''/home'' manifest_tree)) = ''[ERROR] BUILD FAILURE''
   \<and> stderr (tool_run failing_env ''/w/proj'' (demo_world ''/home'' manifest_tree)) = ''Picked up _JAVA_OPTIONS''
   \<and> fst (build_classpath failing_env ''/w/proj/src/A.java'' ''/tp'' (demo_world ''/home'' manifest_tree))
        = Some (RuntimeError ''[ERROR] BUILD FAILURE'')
   \<and> \<not> contains ''Picked up _JAVA_OPTIONS'' ''[ERROR] BUILD FAILURE''"
  by code_simp


end
